theory Spec2Isabelle
  imports Complex_Main "HOL-Library.Monad_Syntax"
begin

section \<open>JavaScript values\<close>

text \<open>
  The module \<^verbatim>\<open>src/ffmpeg.ts\<close> builds argument lists for an external encoder. The
  values it handles are JavaScript values: the default tables hold numbers and strings,
  and the caller's override object (\<^verbatim>\<open>opts.flags\<close>, typed \<^verbatim>\<open>any\<close>) may hold anything.

  A number is a finite value, \<^verbatim>\<open>NaN\<close> or an infinity. A finite double is the rational
  it stands for, and \<^verbatim>\<open>-0\<close> is \<open>Fin 0\<close> (both are falsy and both print as \<^verbatim>\<open>0\<close>).
\<close>

datatype jsnum = Fin rat | NaN | PosInf | NegInf

text \<open>
  A value is a primitive or, for anything else (an object, an array, a function), a
  reference. The module never looks inside such a value: it tests it and passes it on.
\<close>

datatype jsval = JUndefined | JNull | JBool bool | JNum jsnum | JStr string | JObject nat

text \<open>The two quotation marks, which the source writes inside several of its strings.\<close>

abbreviation squote :: string where
  "squote \<equiv> [CHR 0x27]"

abbreviation dquote :: string where
  "dquote \<equiv> [CHR 0x22]"

text \<open>ToBoolean on numbers and on values.\<close>

fun truthy_num :: "jsnum \<Rightarrow> bool" where
  "truthy_num (Fin r) = (r \<noteq> 0)"
| "truthy_num NaN = False"
| "truthy_num PosInf = True"
| "truthy_num NegInf = True"

fun truthy :: "jsval \<Rightarrow> bool" where
  "truthy JUndefined = False"
| "truthy JNull = False"
| "truthy (JBool b) = b"
| "truthy (JNum n) = truthy_num n"
| "truthy (JStr s) = (s \<noteq> [])"
| "truthy (JObject r) = True"

text \<open>The operator \<^verbatim>\<open>a || b\<close>.\<close>

definition js_or :: "jsval \<Rightarrow> jsval \<Rightarrow> jsval" where
  "js_or a b = (if truthy a then a else b)"

text \<open>
  An object literal with its own keys in insertion order (none of the keys of this module
  is an array index, so \<^verbatim>\<open>Object.keys\<close> lists them as written). Reading a key that
  is absent gives \<^verbatim>\<open>undefined\<close>.
\<close>

type_synonym table = "(string \<times> jsval) list"

definition keys_of :: "table \<Rightarrow> string list" where
  "keys_of t = map fst t"

definition table_at :: "table \<Rightarrow> string \<Rightarrow> jsval" where
  "table_at t k = (case map_of t k of None \<Rightarrow> JUndefined | Some v \<Rightarrow> v)"

text \<open>
  The caller's override object, a dictionary from flag names to values (own properties
  only: none of the names looked up by this module is a property of
  \<^verbatim>\<open>Object.prototype\<close>).
\<close>

type_synonym flags = "string \<rightharpoonup> jsval"

definition flag_at :: "flags \<Rightarrow> string \<Rightarrow> jsval" where
  "flag_at src k = (case src k of None \<Rightarrow> JUndefined | Some v \<Rightarrow> v)"

section \<open>The default tables and the merge rule\<close>

text \<open>\<^verbatim>\<open>FFmpegUtil.recordingArgs\<close>, one table per group.\<close>

definition recordingArgs_common :: table where
  "recordingArgs_common = [(''threads'', JNum (Fin 4)), (''capture_cursor'', JNum (Fin 1))]"

definition recordingArgs_audio :: table where
  "recordingArgs_audio =
     [(''b:a'', JStr ''384k''), (''c:a'', JStr ''aac''), (''ac'', JNum (Fin 1)), (''vbr'', JNum (Fin 3))]"

definition recordingArgs_video :: table where
  "recordingArgs_video =
     [(''preset'', JStr ''ultrafast''), (''crf'', JNum (Fin 22)), (''c:v'', JStr ''libx264'')]"

text \<open>
  \<^verbatim>\<open>customKeyOverride || key\<close>: the optional alternate key, unless it is missing or the
  empty string.
\<close>

definition key_or :: "string option \<Rightarrow> string \<Rightarrow> string" where
  "key_or customKeyOverride key =
     (case customKeyOverride of
        None \<Rightarrow> key
      | Some a \<Rightarrow> if a = [] then key else a)"

text \<open>
  \<^verbatim>\<open>get(src, key, target, customKeyOverride?)\<close> returns the pair
  \<^verbatim>\<open>[`-${key}`, src[customKeyOverride || key] || target[key]]\<close>.
\<close>

definition get :: "flags \<Rightarrow> string \<Rightarrow> table \<Rightarrow> string option \<Rightarrow> jsval list" where
  "get src key target customKeyOverride =
     [JStr (''-'' @ key),
      js_or (flag_at src (key_or customKeyOverride key)) (table_at target key)]"

text \<open>
  \<^verbatim>\<open>getAll(src, target, keys = Object.keys(target), override?)\<close> pushes the pair of every
  key onto an accumulator, left to right; the alternate key it hands to \<^verbatim>\<open>get\<close> is
  \<^verbatim>\<open>override ? override(k) : k\<close>.
\<close>

definition getAll ::
  "flags \<Rightarrow> table \<Rightarrow> string list option \<Rightarrow> (string \<Rightarrow> string) option \<Rightarrow> jsval list" where
  "getAll src target keys override =
     foldl (\<lambda>acc k. acc @ get src k target
                (Some (case override of None \<Rightarrow> k | Some g \<Rightarrow> g k)))
       []
       (case keys of None \<Rightarrow> keys_of target | Some ks \<Rightarrow> ks)"

text \<open>
  The merge rule in the words of the specification: the override value when it is
  present and truthy, else the table default.
\<close>

definition effective_value :: "jsval option \<Rightarrow> jsval \<Rightarrow> jsval" where
  "effective_value ov d =
     (case ov of
        None \<Rightarrow> d
      | Some v \<Rightarrow> if truthy v then v else d)"

section \<open>Printing numbers\<close>

text \<open>
  Template literals turn numbers into text. An integer prints in decimal, with a minus
  sign when negative (the exponent form that JavaScript uses from \<open>10^21\<close> on is
  not modelled).
\<close>

definition digit_char :: "nat \<Rightarrow> char" where
  "digit_char n = ''0123456789'' ! n"

fun show_nat :: "nat \<Rightarrow> string" where
  "show_nat n = (if n < 10 then [digit_char n] else show_nat (n div 10) @ [digit_char (n mod 10)])"

declare show_nat.simps [simp del]

definition show_int :: "int \<Rightarrow> string" where
  "show_int i = (if i < 0 then ''-'' @ show_nat (nat (- i)) else show_nat (nat i))"

text \<open>
  The result of \<^verbatim>\<open>parseInt\<close> is an integer or \<^verbatim>\<open>NaN\<close> (\<open>None\<close>);
  \<open>show_parsed\<close> is its text in a template literal.
\<close>

definition show_parsed :: "int option \<Rightarrow> string" where
  "show_parsed n = (case n of None \<Rightarrow> ''NaN'' | Some i \<Rightarrow> show_int i)"

text \<open>
  The product of two doubles is their exact product rounded to the nearest double, ties
  to even (IEEE 754 binary64): 53 significant bits, the exponent not below -1022, and
  an infinity when the rounded value reaches \<open>2^1024\<close>.

  \<open>exponent_of a\<close>, for \<open>a > 0\<close>, is the \<open>e\<close> with \<open>2^e \<le> a < 2^(e+1)\<close>.
\<close>

fun bit_length :: "nat \<Rightarrow> nat" where
  "bit_length n = (if n = 0 then 0 else Suc (bit_length (n div 2)))"

declare bit_length.simps [simp del]

definition pow2 :: "int \<Rightarrow> rat" where
  "pow2 e = (if 0 \<le> e then 2 ^ nat e else 1 / 2 ^ nat (- e))"

definition exponent_of :: "rat \<Rightarrow> int" where
  "exponent_of a =
     (if 1 \<le> a then int (bit_length (nat \<lfloor>a\<rfloor>)) - 1
      else - int (bit_length (nat (\<lceil>1 / a\<rceil> - 1))))"

definition round_half_even :: "rat \<Rightarrow> int" where
  "round_half_even r =
     (let f = \<lfloor>r\<rfloor>; d = r - of_int f
      in if d < 1 / 2 then f
         else if 1 / 2 < d then f + 1
         else if even f then f else f + 1)"

definition round_double :: "rat \<Rightarrow> jsnum" where
  "round_double x =
     (if x = 0 then Fin 0
      else
        (let a = \<bar>x\<bar>;
             e = max (exponent_of a) (- 1022);
             q = pow2 (e - 52);
             y = of_int (round_half_even (a / q)) * q
         in if pow2 1024 \<le> y then (if 0 < x then PosInf else NegInf)
            else Fin (if 0 < x then y else - y)))"

text \<open>
  \<^verbatim>\<open>n * s\<close> for an integer \<open>n\<close> and a number \<open>s\<close>, and
  \<^verbatim>\<open>`${Math.trunc(v)}`\<close>: rounding towards zero, then printing.
\<close>

fun times_int :: "int \<Rightarrow> jsnum \<Rightarrow> jsnum" where
  "times_int n (Fin r) = round_double (of_int n * r)"
| "times_int n NaN = NaN"
| "times_int n PosInf = (if 0 < n then PosInf else if n < 0 then NegInf else NaN)"
| "times_int n NegInf = (if 0 < n then NegInf else if n < 0 then PosInf else NaN)"

definition trunc_rat :: "rat \<Rightarrow> int" where
  "trunc_rat r = (if r < 0 then - \<lfloor>- r\<rfloor> else \<lfloor>r\<rfloor>)"

fun show_trunc :: "jsnum \<Rightarrow> string" where
  "show_trunc (Fin r) = show_int (trunc_rat r)"
| "show_trunc NaN = ''NaN''"
| "show_trunc PosInf = ''Infinity''"
| "show_trunc NegInf = ''-Infinity''"

section \<open>The recording intent and the host\<close>

text \<open>
  Modelled from the spec: \<^verbatim>\<open>RecordingOptions\<close> is declared in \<^verbatim>\<open>./types\<close>, which is
  not among the sources. The record has the fields that \<^verbatim>\<open>ffmpeg.ts\<close> reads: the
  capture region in pixels, the frame rate, the optional duration in seconds, the audio
  switch, the output path (\<^verbatim>\<open>file\<close> in the source), the encoder binary and the optional override object. Pixel
  counts, frame rate and duration are integers.
\<close>

record bounds =
  pos_x :: int
  pos_y :: int
  width :: int
  height :: int

record recordingOptions =
  bounds :: bounds
  fps :: int
  duration :: "int option"
  audio :: bool
  file_path :: string
  ffmpegBinary :: string
  flags :: "flags option"

text \<open>\<^verbatim>\<open>RecordingOptions & { scale?: number }\<close>, the argument of \<^verbatim>\<open>generateGIF\<close>.\<close>

record gifOptions = recordingOptions +
  scale :: "jsnum option"

datatype platform = Darwin | Win32 | Linux | OtherPlatform string

text \<open>
  What the module learns from its collaborators during one call: the value of
  \<^verbatim>\<open>os.platform()\<close>; the text chunks that the desktop-geometry query writes to its
  standard output and whether that process ends well; the text that the encoder writes
  to standard error in device-listing mode; the binary that
  \<^verbatim>\<open>Config.getFFmpegBinary()\<close> resolves, if any; \<^verbatim>\<open>os.tmpdir()\<close> and \<^verbatim>\<open>path.resolve\<close>
  on two segments; and whether the palette-generation process ends well. Text is a list
  of characters with codes below 256.
\<close>

record host =
  platform :: platform
  desktop_chunks :: "string list"
  desktop_ok :: bool
  device_listing :: string
  configured_ffmpeg :: "string option"
  tmpdir :: string
  path_resolve :: "string \<Rightarrow> string \<Rightarrow> string"
  palette_ok :: bool

datatype error =
    UnsupportedPlatform
  | ScreenDeviceNotFound
  | MicrophoneDeviceNotFound
  | ProcessFailed

text \<open>A spawned process: the binary and its argument list.\<close>

type_synonym command = "string \<times> jsval list"

section \<open>Scanning the discovery text\<close>

text \<open>
  The two regular expressions of \<^verbatim>\<open>getMacInputDevices\<close>, both with the flag \<^verbatim>\<open>i\<close>:
  \<^verbatim>\<open>/\[(\d+)\]\s+Capture\s+Screen/\<close> and \<^verbatim>\<open>/\[(\d+)\]\s+Mac[^\n]*Microphone/\<close>.
  \<^verbatim>\<open>\d\<close> is an ASCII digit; \<^verbatim>\<open>\s\<close> is, below 256, one of the codes 9 to 13, 32 and
  160; without the flag \<^verbatim>\<open>u\<close>, ignoring case identifies only the ASCII letters with
  their other case.
\<close>

definition is_digit :: "char \<Rightarrow> bool" where
  "is_digit c = (c \<in> set ''0123456789'')"

definition is_space :: "char \<Rightarrow> bool" where
  "is_space c = (c \<in> set [CHR 0x09, CHR 0x0A, CHR 0x0B, CHR 0x0C, CHR 0x0D, CHR 0x20, CHR 0xA0])"

definition lower :: "char \<Rightarrow> char" where
  "lower c =
     (case map_of (zip ''ABCDEFGHIJKLMNOPQRSTUVWXYZ'' ''abcdefghijklmnopqrstuvwxyz'') c of
        None \<Rightarrow> c
      | Some d \<Rightarrow> d)"

text \<open>One literal character; a literal word, ignoring case. Each returns the rest.\<close>

definition lit :: "char \<Rightarrow> string \<Rightarrow> string option" where
  "lit c s = (case s of [] \<Rightarrow> None | d # r \<Rightarrow> if d = c then Some r else None)"

definition lit_ci :: "string \<Rightarrow> string \<Rightarrow> string option" where
  "lit_ci p s =
     (if length p \<le> length s \<and> map lower (take (length p) s) = map lower p
      then Some (drop (length p) s) else None)"

text \<open>
  \<^verbatim>\<open>(\d+)\<close> and \<^verbatim>\<open>\s+\<close>. Both are greedy, and what follows them in the patterns
  (\<^verbatim>\<open>\]\<close>, a letter) is outside their class, so the longest run is the only one that
  can lead to a match.
\<close>

definition digits1 :: "string \<Rightarrow> (string \<times> string) option" where
  "digits1 s =
     (if takeWhile is_digit s = [] then None
      else Some (takeWhile is_digit s, dropWhile is_digit s))"

definition spaces1 :: "string \<Rightarrow> string option" where
  "spaces1 s =
     (case s of
        [] \<Rightarrow> None
      | c # r \<Rightarrow> if is_space c then Some (dropWhile is_space r) else None)"

text \<open>
  \<^verbatim>\<open>[^\n]*Microphone\<close>: the word starts here or further on, with no line feed before it.
\<close>

fun line_has_ci :: "string \<Rightarrow> string \<Rightarrow> bool" where
  "line_has_ci p [] = (lit_ci p [] \<noteq> None)"
| "line_has_ci p (c # r) = (lit_ci p (c # r) \<noteq> None \<or> (c \<noteq> CHR 0x0A \<and> line_has_ci p r))"

text \<open>The two patterns, tried at the start of \<open>s\<close>; the result is capture group 1.\<close>

definition screen_at :: "string \<Rightarrow> string option" where
  "screen_at s = do {
     s1 \<leftarrow> lit CHR ''['' s;
     (ds, s2) \<leftarrow> digits1 s1;
     s3 \<leftarrow> lit CHR '']'' s2;
     s4 \<leftarrow> spaces1 s3;
     s5 \<leftarrow> lit_ci ''Capture'' s4;
     s6 \<leftarrow> spaces1 s5;
     _ \<leftarrow> lit_ci ''Screen'' s6;
     Some ds
   }"

definition microphone_at :: "string \<Rightarrow> string option" where
  "microphone_at s = do {
     s1 \<leftarrow> lit CHR ''['' s;
     (ds, s2) \<leftarrow> digits1 s1;
     s3 \<leftarrow> lit CHR '']'' s2;
     s4 \<leftarrow> spaces1 s3;
     s5 \<leftarrow> lit_ci ''Mac'' s4;
     if line_has_ci ''Microphone'' s5 then Some ds else None
   }"

text \<open>\<^verbatim>\<open>text.match(re)\<close> without the flag \<^verbatim>\<open>g\<close>: the leftmost position that matches.\<close>

fun match_first :: "(string \<Rightarrow> 'a option) \<Rightarrow> string \<Rightarrow> 'a option" where
  "match_first m [] = m []"
| "match_first m (c # r) = (case m (c # r) of Some v \<Rightarrow> Some v | None \<Rightarrow> match_first m r)"

section \<open>Device resolution\<close>

text \<open>
  \<^verbatim>\<open>getMacInputDevices(opts)\<close>, on the text gathered from standard error (the outcome
  of the listing process is ignored by the source).
\<close>

definition getMacInputDevices :: "string \<Rightarrow> 'a recordingOptions_scheme \<Rightarrow> error + string" where
  "getMacInputDevices listing opts =
     (case match_first screen_at listing of
        None \<Rightarrow> Inl ScreenDeviceNotFound
      | Some videoIndex \<Rightarrow>
          if \<not> audio opts then Inr (squote @ videoIndex @ '':none'' @ squote)
          else (case match_first microphone_at listing of
                  None \<Rightarrow> Inl MicrophoneDeviceNotFound
                | Some audioIndex \<Rightarrow> Inr (squote @ videoIndex @ '':'' @ audioIndex @ squote)))"

text \<open>
  The handler of the desktop-geometry query splits a chunk at \<^verbatim>\<open>/\s*,\s*/\<close>, takes the
  third and fourth piece and reads each with \<^verbatim>\<open>parseInt(`${w}`, 10)\<close>.

  \<open>sep_at\<close> is the separator pattern tried at the start of \<open>s\<close>: it matches when a
  comma follows the leading white space, and takes the white space after the comma too.
\<close>

definition sep_at :: "string \<Rightarrow> string option" where
  "sep_at s =
     (case dropWhile is_space s of
        [] \<Rightarrow> None
      | c # r \<Rightarrow> if c = CHR '','' then Some (dropWhile is_space r) else None)"

lemma sep_at_shorter: "sep_at s = Some r \<Longrightarrow> length r < length s"
proof -
  assume a: "sep_at s = Some r"
  then obtain c t where ct: "dropWhile is_space s = c # t" and r: "r = dropWhile is_space t"
    by (auto simp: sep_at_def split: list.splits if_splits)
  have "length r \<le> length t"
    unfolding r by (rule length_dropWhile_le)
  moreover have "length (c # t) \<le> length s"
    unfolding ct [symmetric] by (rule length_dropWhile_le)
  ultimately show ?thesis by simp
qed

text \<open>
  \<^verbatim>\<open>String.prototype.split\<close> with that pattern: \<open>piece\<close> is the text since the last
  separator; the scan moves one character at a time until the pattern matches.
\<close>

function split_commas :: "string \<Rightarrow> string \<Rightarrow> string list" where
  "split_commas piece [] = [piece]"
| "split_commas piece (c # r) =
     (case sep_at (c # r) of
        Some rest \<Rightarrow> piece # split_commas [] rest
      | None \<Rightarrow> split_commas (piece @ [c]) r)"
  by pat_completeness auto
termination
  by (relation "measure (\<lambda>(piece, s). length s)") (auto dest: sep_at_shorter)

text \<open>An array element that may be missing, and its text in a template literal.\<close>

definition element :: "string list \<Rightarrow> nat \<Rightarrow> string option" where
  "element xs n = (if n < length xs then Some (xs ! n) else None)"

definition show_element :: "string option \<Rightarrow> string" where
  "show_element e = (case e of None \<Rightarrow> ''undefined'' | Some s \<Rightarrow> s)"

text \<open>
  \<^verbatim>\<open>parseInt(s, 10)\<close>: leading white space, an optional sign, then the longest run of
  digits; \<^verbatim>\<open>NaN\<close> when there is no digit.
\<close>

definition digit_value :: "char \<Rightarrow> int" where
  "digit_value c = int (of_char c) - 48"

definition parseInt :: "string \<Rightarrow> int option" where
  "parseInt s =
     (let t = dropWhile is_space s;
          negative = (t \<noteq> [] \<and> hd t = CHR ''-'');
          u = (if t \<noteq> [] \<and> (hd t = CHR ''-'' \<or> hd t = CHR ''+'') then tl t else t);
          ds = takeWhile is_digit u
      in if ds = [] then None
         else Some ((if negative then - 1 else 1) * foldl (\<lambda>a c. 10 * a + digit_value c) 0 ds))"

definition on_desktop_data :: "string \<Rightarrow> int option \<times> int option" where
  "on_desktop_data v =
     (let parts = split_commas [] v
      in (parseInt (show_element (element parts 2)), parseInt (show_element (element parts 3))))"

text \<open>
  The result of \<^verbatim>\<open>getInputDevices\<close>: the video descriptor, the audio descriptor where
  the platform has one of its own, and the desktop resolution where the platform
  reports it. The descriptors are objects with the keys \<^verbatim>\<open>f\<close> and \<^verbatim>\<open>i\<close>.
\<close>

record input =
  resolution :: "(int option \<times> int option) option"
  video :: table
  audio_device :: "table option"

text \<open>
  \<^verbatim>\<open>getInputDevices(opts)\<close>. On \<^verbatim>\<open>darwin\<close> the width and height start at 0 and every
  chunk of the query's output sets them anew; a query that fails rejects the call. A
  platform outside the three cases gives \<^verbatim>\<open>undefined\<close> (\<open>None\<close>).
\<close>

definition getInputDevices :: "host \<Rightarrow> 'a recordingOptions_scheme \<Rightarrow> error + input option" where
  "getInputDevices h opts =
     (case platform h of
        Darwin \<Rightarrow>
          (let wh = foldl (\<lambda>_ v. on_desktop_data v) (Some 0, Some 0) (desktop_chunks h)
           in if \<not> desktop_ok h then Inl ProcessFailed
              else (case getMacInputDevices (device_listing h) opts of
                      Inl e \<Rightarrow> Inl e
                    | Inr i \<Rightarrow>
                        Inr (Some \<lparr> resolution = Some wh,
                                    video = [(''f'', JStr ''avfoundation''), (''i'', JStr i)],
                                    audio_device = None \<rparr>)))
      | Win32 \<Rightarrow>
          Inr (Some \<lparr> resolution = None,
                      video = [(''f'', JStr ''dshow''),
                               (''i'', JStr (if audio opts
                                  then ''video='' @ dquote @ ''UScreenCapture'' @ dquote @
                                       '':audio='' @ dquote @ ''Microphone'' @ dquote
                                  else ''video='' @ dquote @ ''screen-capture-recorder'' @ dquote))],
                      audio_device = None \<rparr>)
      | Linux \<Rightarrow>
          Inr (Some \<lparr> resolution = None,
                      video = [(''f'', JStr ''x11grab''), (''i'', JStr '':0.0'')],
                      audio_device =
                        (if \<not> audio opts then None
                         else Some [(''f'', JStr ''pulse''), (''i'', JStr ''default'')]) \<rparr>)
      | OtherPlatform _ \<Rightarrow> Inr None)"

section \<open>Argument synthesis for a recording\<close>

text \<open>\<^verbatim>\<open>const custom = opts.flags || {}\<close>: the overrides, none when the intent has no object.\<close>

definition custom_flags :: "'a recordingOptions_scheme \<Rightarrow> flags" where
  "custom_flags opts = (case flags opts of None \<Rightarrow> Map.empty | Some m \<Rightarrow> m)"

text \<open>
  \<^verbatim>\<open>launchProcess(opts)\<close> up to the spawn: the result is the command handed to
  \<^verbatim>\<open>Util.processToPromise\<close>, the binary \<^verbatim>\<open>opts.ffmpegBinary\<close> with
  \<^verbatim>\<open>[...args, opts.file]\<close>. The successive values of \<^verbatim>\<open>args\<close> and \<^verbatim>\<open>vf\<close> are the
  successive bindings of the same names; \<^verbatim>\<open>if (opts.duration)\<close> holds for a duration
  that is present and not 0.
\<close>

definition launchProcess :: "host \<Rightarrow> 'a recordingOptions_scheme \<Rightarrow> error + command" where
  "launchProcess h opts =
     (let custom = custom_flags opts
      in case getInputDevices h opts of
           Inl e \<Rightarrow> Inl e
         | Inr None \<Rightarrow> Inl UnsupportedPlatform
         | Inr (Some input) \<Rightarrow>
            (let args =
                   getAll custom recordingArgs_common None None @
                   [JStr ''-r'', JStr (show_int (fps opts)),
                    JStr ''-video_size'',
                    JStr (show_int (width (bounds opts)) @ ''x'' @ show_int (height (bounds opts)))] @
                   getAll custom (video input) (Some [''f'']) None @
                   getAll custom (video input) (Some [''i'']) None;
                 args =
                   (case duration opts of
                      None \<Rightarrow> args
                    | Some d \<Rightarrow> if d \<noteq> 0 then [JStr ''-t'', JStr (show_int d)] @ args else args);
                 args =
                   (if audio opts
                    then args @
                      (case audio_device input of
                         None \<Rightarrow> []
                       | Some a \<Rightarrow>
                           getAll custom a (Some [''f'']) (Some (\<lambda>x. ''audio_'' @ x)) @
                           getAll custom a (Some [''i'']) (Some (\<lambda>x. ''audio_'' @ x))) @
                      getAll custom recordingArgs_audio None None
                    else args);
                 vf = ''crop='' @ show_int (width (bounds opts)) @ '':'' @
                      show_int (height (bounds opts)) @ '':'' @
                      show_int (pos_x (bounds opts)) @ '':'' @ show_int (pos_y (bounds opts));
                 vf =
                   (case resolution input of
                      None \<Rightarrow> vf
                    | Some (w, h) \<Rightarrow>
                        ''scale='' @ show_parsed w @ '':'' @ show_parsed h @
                        '':flags=lanczos,'' @ vf);
                 args = args @ getAll custom recordingArgs_video None None @
                        [JStr ''-vf'', JStr (squote @ vf @ squote)]
             in Inr (ffmpegBinary opts, args @ [JStr (file_path opts)])))"

section \<open>The two-pass transcode\<close>

text \<open>
  \<^verbatim>\<open>s.replace(pattern, replacement)\<close> with a string pattern: the first occurrence of
  the pattern is replaced (the replacement used by the module has no \<^verbatim>\<open>$\<close> in it), and
  a text without the pattern is left as it is.
\<close>

fun replace_first :: "string \<Rightarrow> string \<Rightarrow> string \<Rightarrow> string" where
  "replace_first pat rep [] = (if pat = [] then rep else [])"
| "replace_first pat rep (c # r) =
     (if take (length pat) (c # r) = pat then rep @ drop (length pat) (c # r)
      else c # replace_first pat rep r)"

text \<open>
  \<^verbatim>\<open>generateGIF(opts)\<close>: the processes it spawns, in order, and its outcome. With no
  binary configured (\<^verbatim>\<open>undefined\<close> or the empty string) it returns \<^verbatim>\<open>undefined\<close>
  (\<open>Inr None\<close>) at once. Otherwise it spawns the palette pass and waits for it; when
  that pass fails the call is rejected, else it spawns the second pass and returns a
  handle whose completion signal carries the path \<^verbatim>\<open>final\<close> (\<open>Inr (Some final)\<close>).
  \<^verbatim>\<open>if (opts.scale)\<close> holds for a scale that is present, not 0 and not \<^verbatim>\<open>NaN\<close>.
\<close>

definition gif_filter :: "gifOptions \<Rightarrow> string" where
  "gif_filter opts =
     (let vf = ''fps='' @ show_int (fps opts);
          vf =
            (case scale opts of
               None \<Rightarrow>
                 vf @ '',scale='' @ show_int (width (bounds opts)) @ '':'' @
                 show_int (height (bounds opts))
             | Some s \<Rightarrow>
                 if truthy_num s
                 then vf @ '',scale='' @ show_trunc (times_int (width (bounds opts)) s) @ '':'' @
                      show_trunc (times_int (height (bounds opts)) s)
                 else vf @ '',scale='' @ show_int (width (bounds opts)) @ '':'' @
                      show_int (height (bounds opts)))
      in vf @ '':flags=lanczos'')"

definition generateGIF :: "host \<Rightarrow> gifOptions \<Rightarrow> command list \<times> (error + string option)" where
  "generateGIF h opts =
     (case configured_ffmpeg h of
        None \<Rightarrow> ([], Inr None)
      | Some ffmpeg \<Rightarrow>
          if ffmpeg = [] then ([], Inr None)
          else
            (let vf = gif_filter opts;
                 paletteFile = path_resolve h (tmpdir h) ''palette-gen.png'';
                 final = replace_first ''.mp4'' ''.gif'' (file_path opts);
                 stage1 =
                   (ffmpeg,
                    [JStr ''-i'', JStr (file_path opts),
                     JStr ''-vf'', JStr (vf @ '',palettegen=stats_mode=diff''),
                     JStr ''-y'', JStr paletteFile]);
                 stage2 =
                   (ffmpeg,
                    [JStr ''-i'', JStr (file_path opts),
                     JStr ''-i'', JStr paletteFile,
                     JStr ''-lavfi'',
                     JStr (dquote @ vf @
                       '',paletteuse=dither=bayer:bayer_scale=5:diff_mode=rectangle'' @ dquote),
                     JStr ''-y'', JStr final])
             in if \<not> palette_ok h then ([stage1], Inl ProcessFailed)
                else ([stage1, stage2], Inr (Some final))))"

section \<open>Reading an argument list\<close>

text \<open>
  An argument list of a recording is a run of flag/value pairs followed by the output
  path. \<open>flag_names\<close> lists the tokens that stand in flag position.
\<close>

fun flag_names :: "jsval list \<Rightarrow> jsval list" where
  "flag_names (k # v # rest) = k # flag_names rest"
| "flag_names [p] = []"
| "flag_names [] = []"

text \<open>The argument list of a launch, empty when the launch failed.\<close>

definition tokens_of :: "error + command \<Rightarrow> jsval list" where
  "tokens_of r = (case r of Inl e \<Rightarrow> [] | Inr (b, toks) \<Rightarrow> toks)"

section \<open>Concrete inputs\<close>

text \<open>
  A host on which \<^verbatim>\<open>os.tmpdir()\<close> is \<^verbatim>\<open>/tmp\<close> and the encoder is configured, and the
  intent of the scenarios: the region 800 by 600 at the origin, 30 frames per second, no
  overrides.
\<close>

definition example_host :: "platform \<Rightarrow> string \<Rightarrow> host" where
  "example_host p listing =
     \<lparr> platform = p, desktop_chunks = [''0, 0, 1440, 900''], desktop_ok = True,
       device_listing = listing, configured_ffmpeg = Some ''ffmpeg'', tmpdir = ''/tmp'',
       path_resolve = (\<lambda>d f. d @ ''/'' @ f), palette_ok = True \<rparr>"

definition example_opts :: "bool \<Rightarrow> int option \<Rightarrow> recordingOptions" where
  "example_opts a d =
     \<lparr> bounds = \<lparr> pos_x = 0, pos_y = 0, width = 800, height = 600 \<rparr>, fps = 30,
       duration = d, audio = a, file_path = ''out.mp4'', ffmpegBinary = ''ffmpeg'',
       flags = None \<rparr>"

definition example_gif :: "string \<Rightarrow> jsnum option \<Rightarrow> gifOptions" where
  "example_gif p s =
     \<lparr> bounds = \<lparr> pos_x = 0, pos_y = 0, width = 800, height = 600 \<rparr>, fps = 30,
       duration = None, audio = False, file_path = p, ffmpegBinary = ''ffmpeg'',
       flags = None, scale = s \<rparr>"

section \<open>Properties of the merge rule\<close>

lemma foldl_append_concat:
  "foldl (\<lambda>acc k. acc @ f k) a ks = a @ concat (map f ks)"
  by (induction ks arbitrary: a) simp_all

lemma getAll_concat:
  "getAll src target keys override =
     concat (map (\<lambda>k. get src k target (Some (case override of None \<Rightarrow> k | Some g \<Rightarrow> g k)))
       (case keys of None \<Rightarrow> keys_of target | Some ks \<Rightarrow> ks))"
  unfolding getAll_def by (simp add: foldl_append_concat)

lemma key_or_self [simp]: "key_or (Some k) k = k"
  by (simp add: key_or_def)

lemma table_at_member: "distinct (map fst t) \<Longrightarrow> (k, d) \<in> set t \<Longrightarrow> table_at t k = d"
  by (simp add: table_at_def)

lemma getAll_member:
  assumes "k \<in> set (keys_of target)"
  shows "\<exists>pre post. getAll src target None None = pre @ get src k target (Some k) @ post"
proof -
  from assms obtain ks1 ks2 where ks: "keys_of target = ks1 @ k # ks2"
    by (auto dest: split_list)
  have "getAll src target None None =
      concat (map (\<lambda>k. get src k target (Some k)) ks1) @ get src k target (Some k) @
      concat (map (\<lambda>k. get src k target (Some k)) ks2)"
    by (simp add: getAll_concat ks)
  then show ?thesis by blast
qed

lemma groups_distinct:
  "tbl \<in> {recordingArgs_common, recordingArgs_audio, recordingArgs_video} \<Longrightarrow>
     distinct (map fst tbl)"
  by (auto simp: recordingArgs_common_def recordingArgs_audio_def recordingArgs_video_def)

section \<open>Properties of the argument synthesis\<close>

lemma getAll_one:
  "getAll src target (Some [k]) override =
     get src k target (Some (case override of None \<Rightarrow> k | Some g \<Rightarrow> g k))"
  by (simp add: getAll_concat)

lemma getAll_common:
  "getAll src recordingArgs_common None None =
     [JStr ''-threads'', js_or (flag_at src ''threads'') (JNum (Fin 4)),
      JStr ''-capture_cursor'', js_or (flag_at src ''capture_cursor'') (JNum (Fin 1))]"
  by (simp add: getAll_concat get_def recordingArgs_common_def keys_of_def table_at_def)

lemma getAll_audio:
  "getAll src recordingArgs_audio None None =
     [JStr ''-b:a'', js_or (flag_at src ''b:a'') (JStr ''384k''),
      JStr ''-c:a'', js_or (flag_at src ''c:a'') (JStr ''aac''),
      JStr ''-ac'', js_or (flag_at src ''ac'') (JNum (Fin 1)),
      JStr ''-vbr'', js_or (flag_at src ''vbr'') (JNum (Fin 3))]"
  by (simp add: getAll_concat get_def recordingArgs_audio_def keys_of_def table_at_def)

lemma getAll_video:
  "getAll src recordingArgs_video None None =
     [JStr ''-preset'', js_or (flag_at src ''preset'') (JStr ''ultrafast''),
      JStr ''-crf'', js_or (flag_at src ''crf'') (JNum (Fin 22)),
      JStr ''-c:v'', js_or (flag_at src ''c:v'') (JStr ''libx264'')]"
  by (simp add: getAll_concat get_def recordingArgs_video_def keys_of_def table_at_def)

lemma getMacInputDevices_audio:
  "audio opts' = audio opts \<Longrightarrow> getMacInputDevices l opts' = getMacInputDevices l opts"
  by (simp add: getMacInputDevices_def split: option.splits)

lemma getInputDevices_audio:
  "audio opts' = audio opts \<Longrightarrow> getInputDevices h opts' = getInputDevices h opts"
  by (simp add: getInputDevices_def getMacInputDevices_audio [of opts' opts] split: platform.splits)

lemma custom_flags_duration [simp]:
  "custom_flags (opts\<lparr>duration := d\<rparr>) = custom_flags opts"
  by (simp add: custom_flags_def)

lemma getInputDevices_duration [simp]:
  "getInputDevices h (opts\<lparr>duration := d\<rparr>) = getInputDevices h opts"
  by (rule getInputDevices_audio) simp

lemma launchProcess_duration:
  assumes "duration opts = Some d" and "d \<noteq> 0"
    and "launchProcess h (opts\<lparr>duration := None\<rparr>) = Inr (b, rest)"
  shows "launchProcess h opts = Inr (b, JStr ''-t'' # JStr (show_int d) # rest)"
  using assms
  by (auto simp: launchProcess_def Let_def split: sum.splits option.splits)

lemma launchProcess_no_duration:
  assumes "duration opts = None \<or> duration opts = Some 0"
  shows "launchProcess h opts = launchProcess h (opts\<lparr>duration := None\<rparr>)"
  using assms
  by (auto simp: launchProcess_def Let_def split: sum.splits option.splits)

lemma launchProcess_succeeds_without_duration:
  "launchProcess h opts = Inr (b, toks) \<Longrightarrow>
     \<exists>rest. launchProcess h (opts\<lparr>duration := None\<rparr>) = Inr (b, rest)"
  by (auto simp: launchProcess_def Let_def split: sum.splits option.splits)

lemma flag_names_no_duration:
  assumes "launchProcess h opts = Inr (b, toks)" and "duration opts = None"
  shows "set (flag_names toks) \<subseteq>
     JStr ` {''-threads'', ''-capture_cursor'', ''-r'', ''-video_size'', ''-f'', ''-i'',
             ''-b:a'', ''-c:a'', ''-ac'', ''-vbr'', ''-preset'', ''-crf'', ''-c:v'', ''-vf''}"
  using assms
  by (auto simp: launchProcess_def Let_def getAll_one getAll_common getAll_audio getAll_video
      get_def split: sum.splits option.splits if_splits)


lemma flag_names_any_duration:
  assumes "launchProcess h opts = Inr (b, toks)"
  shows "set (flag_names toks) \<subseteq>
     JStr ` {''-t'', ''-threads'', ''-capture_cursor'', ''-r'', ''-video_size'', ''-f'', ''-i'',
             ''-b:a'', ''-c:a'', ''-ac'', ''-vbr'', ''-preset'', ''-crf'', ''-c:v'', ''-vf''}"
    (is "_ \<subseteq> JStr ` insert ''-t'' ?S")
proof -
  obtain rest where rest: "launchProcess h (opts\<lparr>duration := None\<rparr>) = Inr (b, rest)"
    using launchProcess_succeeds_without_duration [OF assms] by blast
  have sub: "set (flag_names rest) \<subseteq> JStr ` ?S"
    by (rule flag_names_no_duration [OF rest]) simp
  show ?thesis
  proof (cases "duration opts = None \<or> duration opts = Some 0")
    case True
    from launchProcess_no_duration [OF True, of h] rest assms have "toks = rest"
      by simp
    with sub show ?thesis by (simp only: image_insert) (rule subset_insertI2)
  next
    case False
    then obtain d where d: "duration opts = Some d" "d \<noteq> 0" by auto
    from launchProcess_duration [OF d rest] assms
    have "set (flag_names toks) = insert (JStr ''-t'') (set (flag_names rest))" by auto
    with sub show ?thesis by (simp only: image_insert) (rule insert_mono)
  qed
qed

lemma not_recording_flags:
  "JStr ''-audio_f'' \<notin>
     JStr ` {''-t'', ''-threads'', ''-capture_cursor'', ''-r'', ''-video_size'', ''-f'', ''-i'',
             ''-b:a'', ''-c:a'', ''-ac'', ''-vbr'', ''-preset'', ''-crf'', ''-c:v'', ''-vf''}"
  "JStr ''-audio_i'' \<notin>
     JStr ` {''-t'', ''-threads'', ''-capture_cursor'', ''-r'', ''-video_size'', ''-f'', ''-i'',
             ''-b:a'', ''-c:a'', ''-ac'', ''-vbr'', ''-preset'', ''-crf'', ''-c:v'', ''-vf''}"
  by simp_all

lemma not_duration_flag:
  "JStr ''-t'' \<notin>
     JStr ` {''-threads'', ''-capture_cursor'', ''-r'', ''-video_size'', ''-f'', ''-i'',
             ''-b:a'', ''-c:a'', ''-ac'', ''-vbr'', ''-preset'', ''-crf'', ''-c:v'', ''-vf''}"
  by simp

text \<open>
  C3. Whenever a recording is launched: with a requested duration \<open>d\<close> (present and
  not 0, the test of the source) the argument list begins with \<^verbatim>\<open>-t\<close> and \<open>d\<close>, and
  what follows is the argument list of the same intent without a duration; with no
  requested duration, no token in flag position is \<^verbatim>\<open>-t\<close>.
\<close>

theorem duration_flag_in_front:
  assumes "launchProcess h opts = Inr (b, toks)"
  shows "(\<forall>d. duration opts = Some d \<and> d \<noteq> 0 \<longrightarrow>
            (\<exists>rest. toks = JStr ''-t'' # JStr (show_int d) # rest
               \<and> launchProcess h (opts\<lparr>duration := None\<rparr>) = Inr (b, rest)))
       \<and> (duration opts = None \<or> duration opts = Some 0 \<longrightarrow>
            JStr ''-t'' \<notin> set (flag_names toks))"
proof (intro conjI allI impI)
  fix d
  assume d: "duration opts = Some d \<and> d \<noteq> 0"
  obtain rest where rest: "launchProcess h (opts\<lparr>duration := None\<rparr>) = Inr (b, rest)"
    using launchProcess_succeeds_without_duration [OF assms] by blast
  from d launchProcess_duration [OF _ _ rest] assms
  have "toks = JStr ''-t'' # JStr (show_int d) # rest" by simp
  with rest show "\<exists>rest. toks = JStr ''-t'' # JStr (show_int d) # rest
      \<and> launchProcess h (opts\<lparr>duration := None\<rparr>) = Inr (b, rest)"
    by blast
next
  assume "duration opts = None \<or> duration opts = Some 0"
  from launchProcess_no_duration [OF this, of h] assms
  have "launchProcess h (opts\<lparr>duration := None\<rparr>) = Inr (b, toks)"
    by simp
  from flag_names_no_duration [OF this] not_duration_flag
  show "JStr ''-t'' \<notin> set (flag_names toks)"
    by (rule contra_subsetD) simp
qed

lemma example_tokens_dshow:
  "launchProcess (example_host Win32 l) (example_opts False None) =
     Inr (''ffmpeg'',
       [JStr ''-threads'', JNum (Fin 4), JStr ''-capture_cursor'', JNum (Fin 1),
        JStr ''-r'', JStr ''30'', JStr ''-video_size'', JStr ''800x600'',
        JStr ''-f'', JStr ''dshow'',
        JStr ''-i'', JStr (''video='' @ dquote @ ''screen-capture-recorder'' @ dquote),
        JStr ''-preset'', JStr ''ultrafast'', JStr ''-crf'', JNum (Fin 22),
        JStr ''-c:v'', JStr ''libx264'',
        JStr ''-vf'', JStr (squote @ ''crop=800:600:0:0'' @ squote),
        JStr ''out.mp4''])"
  by (simp add: launchProcess_def getInputDevices_def example_host_def example_opts_def Let_def
      custom_flags_def getAll_one getAll_common getAll_video get_def js_or_def flag_at_def
      table_at_def show_int_def show_nat.simps digit_char_def)

text \<open>
  C1, as amended. On \<^verbatim>\<open>win32\<close>, for the region 800 by 600 at the origin, 30 frames per
  second, no audio, no duration and no overrides, the argument list is the one below: it
  has the adjacent pairs \<^verbatim>\<open>-f dshow\<close>, \<^verbatim>\<open>-i video="screen-capture-recorder"\<close> and
  \<^verbatim>\<open>-video_size 800x600\<close>, no \<^verbatim>\<open>-t\<close>, and it ends with the crop filter enclosed in single
  quotes, \<^verbatim>\<open>'crop=800:600:0:0'\<close>, followed by the destination path.
\<close>

theorem dshow_scenario_tokens:
  "launchProcess (h\<lparr>platform := Win32\<rparr>)
     \<lparr> bounds = \<lparr> pos_x = 0, pos_y = 0, width = 800, height = 600 \<rparr>, fps = 30,
       duration = None, audio = False, file_path = p, ffmpegBinary = b, flags = None \<rparr> =
     Inr (b,
       [JStr ''-threads'', JNum (Fin 4), JStr ''-capture_cursor'', JNum (Fin 1),
        JStr ''-r'', JStr ''30'', JStr ''-video_size'', JStr ''800x600'',
        JStr ''-f'', JStr ''dshow'',
        JStr ''-i'', JStr (''video='' @ dquote @ ''screen-capture-recorder'' @ dquote),
        JStr ''-preset'', JStr ''ultrafast'', JStr ''-crf'', JNum (Fin 22),
        JStr ''-c:v'', JStr ''libx264'',
        JStr ''-vf'', JStr (squote @ ''crop=800:600:0:0'' @ squote),
        JStr p])"
  by (simp add: launchProcess_def getInputDevices_def Let_def custom_flags_def
      getAll_one getAll_common getAll_video get_def js_or_def flag_at_def table_at_def
      show_int_def show_nat.simps digit_char_def)

lemma launchProcess_tokens:
  assumes "getInputDevices h opts = Inr (Some input)"
    and "custom = custom_flags opts"
  shows "launchProcess h opts =
     Inr (ffmpegBinary opts,
       (case duration opts of
          None \<Rightarrow> []
        | Some d \<Rightarrow> if d \<noteq> 0 then [JStr ''-t'', JStr (show_int d)] else []) @
       getAll custom recordingArgs_common None None @
       [JStr ''-r'', JStr (show_int (fps opts)), JStr ''-video_size'',
        JStr (show_int (width (bounds opts)) @ ''x'' @ show_int (height (bounds opts)))] @
       [JStr ''-f'', js_or (flag_at custom ''f'') (table_at (video input) ''f''),
        JStr ''-i'', js_or (flag_at custom ''i'') (table_at (video input) ''i'')] @
       (if audio opts
        then (case audio_device input of
                None \<Rightarrow> []
              | Some a \<Rightarrow>
                  [JStr ''-f'', js_or (flag_at custom ''audio_f'') (table_at a ''f''),
                   JStr ''-i'', js_or (flag_at custom ''audio_i'') (table_at a ''i'')]) @
             getAll custom recordingArgs_audio None None
        else []) @
       getAll custom recordingArgs_video None None @
       [JStr ''-vf'',
        JStr (squote @
          (case resolution input of
             None \<Rightarrow> []
           | Some (w, t) \<Rightarrow>
               ''scale='' @ show_parsed w @ '':'' @ show_parsed t @ '':flags=lanczos,'') @
          ''crop='' @ show_int (width (bounds opts)) @ '':'' @
          show_int (height (bounds opts)) @ '':'' @
          show_int (pos_x (bounds opts)) @ '':'' @ show_int (pos_y (bounds opts)) @ squote),
        JStr (file_path opts)])"
  using assms
  by (simp add: launchProcess_def Let_def getAll_one get_def key_or_def split: option.splits)

text \<open>
  C4, as amended. When audio is requested and the resolver gave an audio device of its
  own, the argument list has, right after the pair of pairs of the video device, the
  format and the selector of the audio device under the same flag names \<^verbatim>\<open>-f\<close> and
  \<^verbatim>\<open>-i\<close>. The prefix \<^verbatim>\<open>audio_\<close> is only in the keys under which an override of the two
  values is looked up (\<^verbatim>\<open>audio_f\<close>, \<^verbatim>\<open>audio_i\<close>); no flag of the list is named
  \<^verbatim>\<open>-audio_f\<close> or \<^verbatim>\<open>-audio_i\<close>.
\<close>

theorem audio_device_flags:
  assumes "launchProcess h opts = Inr (b, toks)" and "audio opts"
    and "getInputDevices h opts = Inr (Some input)" and "audio_device input = Some a"
    and "custom = custom_flags opts"
  shows "(\<exists>pre post. toks =
            pre @
            [JStr ''-f'', js_or (flag_at custom ''f'') (table_at (video input) ''f''),
             JStr ''-i'', js_or (flag_at custom ''i'') (table_at (video input) ''i''),
             JStr ''-f'', js_or (flag_at custom ''audio_f'') (table_at a ''f''),
             JStr ''-i'', js_or (flag_at custom ''audio_i'') (table_at a ''i'')] @
            post)
       \<and> JStr ''-audio_f'' \<notin> set (flag_names toks)
       \<and> JStr ''-audio_i'' \<notin> set (flag_names toks)"
proof -
  let ?mid = "[JStr ''-f'', js_or (flag_at custom ''f'') (table_at (video input) ''f''),
             JStr ''-i'', js_or (flag_at custom ''i'') (table_at (video input) ''i''),
             JStr ''-f'', js_or (flag_at custom ''audio_f'') (table_at a ''f''),
             JStr ''-i'', js_or (flag_at custom ''audio_i'') (table_at a ''i'')]"
  let ?pre = "(case duration opts of
          None \<Rightarrow> []
        | Some d \<Rightarrow> if d \<noteq> 0 then [JStr ''-t'', JStr (show_int d)] else []) @
       getAll custom recordingArgs_common None None @
       [JStr ''-r'', JStr (show_int (fps opts)), JStr ''-video_size'',
        JStr (show_int (width (bounds opts)) @ ''x'' @ show_int (height (bounds opts)))]"
  from launchProcess_tokens [OF assms(3,5)] assms(1,2,4)
  have "\<exists>post. toks = ?pre @ ?mid @ post"
    by simp
  then have "\<exists>pre post. toks = pre @ ?mid @ post" by blast
  moreover have "JStr ''-audio_f'' \<notin> set (flag_names toks)"
    using flag_names_any_duration [OF assms(1)] not_recording_flags(1) by (rule contra_subsetD)
  moreover have "JStr ''-audio_i'' \<notin> set (flag_names toks)"
    using flag_names_any_duration [OF assms(1)] not_recording_flags(2) by (rule contra_subsetD)
  ultimately show ?thesis by blast
qed


lemma example_tokens_dshow_10:
  "launchProcess (example_host Win32 l) (example_opts False (Some 10)) =
     Inr (''ffmpeg'',
       [JStr ''-t'', JStr ''10'',
        JStr ''-threads'', JNum (Fin 4), JStr ''-capture_cursor'', JNum (Fin 1),
        JStr ''-r'', JStr ''30'', JStr ''-video_size'', JStr ''800x600'',
        JStr ''-f'', JStr ''dshow'',
        JStr ''-i'', JStr (''video='' @ dquote @ ''screen-capture-recorder'' @ dquote),
        JStr ''-preset'', JStr ''ultrafast'', JStr ''-crf'', JNum (Fin 22),
        JStr ''-c:v'', JStr ''libx264'',
        JStr ''-vf'', JStr (squote @ ''crop=800:600:0:0'' @ squote),
        JStr ''out.mp4''])"
  by (simp add: launchProcess_def getInputDevices_def example_host_def example_opts_def Let_def
      custom_flags_def getAll_one getAll_common getAll_video get_def js_or_def flag_at_def
      table_at_def show_int_def show_nat.simps digit_char_def)

lemma example_tokens_linux_audio:
  "launchProcess (example_host Linux l) (example_opts True None) =
     Inr (''ffmpeg'',
       [JStr ''-threads'', JNum (Fin 4), JStr ''-capture_cursor'', JNum (Fin 1),
        JStr ''-r'', JStr ''30'', JStr ''-video_size'', JStr ''800x600'',
        JStr ''-f'', JStr ''x11grab'', JStr ''-i'', JStr '':0.0'',
        JStr ''-f'', JStr ''pulse'', JStr ''-i'', JStr ''default'',
        JStr ''-b:a'', JStr ''384k'', JStr ''-c:a'', JStr ''aac'',
        JStr ''-ac'', JNum (Fin 1), JStr ''-vbr'', JNum (Fin 3),
        JStr ''-preset'', JStr ''ultrafast'', JStr ''-crf'', JNum (Fin 22),
        JStr ''-c:v'', JStr ''libx264'',
        JStr ''-vf'', JStr (squote @ ''crop=800:600:0:0'' @ squote),
        JStr ''out.mp4''])"
  by (simp add: launchProcess_def getInputDevices_def example_host_def example_opts_def Let_def
      custom_flags_def getAll_one getAll_common getAll_audio getAll_video get_def js_or_def
      flag_at_def table_at_def key_or_def show_int_def show_nat.simps digit_char_def)

text \<open>
  C1. The claim: the argument list of the scenario ends with the token
  \<^verbatim>\<open>crop=800:600:0:0\<close> followed by the destination path. The token before the path is
  another one: the source encloses the filter in single quotes.
\<close>

theorem dshow_crop_token_counterexample:
  "launchProcess (example_host Win32 []) (example_opts False None) =
     Inr (''ffmpeg'',
       [JStr ''-threads'', JNum (Fin 4), JStr ''-capture_cursor'', JNum (Fin 1),
        JStr ''-r'', JStr ''30'', JStr ''-video_size'', JStr ''800x600'',
        JStr ''-f'', JStr ''dshow'',
        JStr ''-i'', JStr (''video='' @ dquote @ ''screen-capture-recorder'' @ dquote),
        JStr ''-preset'', JStr ''ultrafast'', JStr ''-crf'', JNum (Fin 22),
        JStr ''-c:v'', JStr ''libx264'',
        JStr ''-vf'', JStr (squote @ ''crop=800:600:0:0'' @ squote),
        JStr ''out.mp4''])
   \<and> last (butlast (tokens_of (launchProcess (example_host Win32 []) (example_opts False None))))
       \<noteq> JStr ''crop=800:600:0:0''"
  by (simp add: example_tokens_dshow tokens_of_def)

theorem duration_flag_in_front_witness:
  "launchProcess (example_host Win32 []) (example_opts False (Some 10)) =
     Inr (''ffmpeg'',
       JStr ''-t'' # JStr ''10'' #
         tokens_of (launchProcess (example_host Win32 []) (example_opts False None)))
   \<and> take 2 (tokens_of (launchProcess (example_host Win32 []) (example_opts False (Some 10)))) =
       [JStr ''-t'', JStr ''10'']
   \<and> JStr ''-t'' \<notin>
       set (flag_names (tokens_of (launchProcess (example_host Win32 []) (example_opts False None))))"
proof -
  have d: "duration (example_opts False None) = None"
    "duration (example_opts False (Some 10)) = Some 10"
    by (simp_all add: example_opts_def)
  have s: "show_int 10 = ''10''"
    by (simp add: show_int_def show_nat.simps digit_char_def)
  have n: "(example_opts False (Some 10))\<lparr>duration := None\<rparr> = example_opts False None"
    by (simp add: example_opts_def)
  from duration_flag_in_front [OF example_tokens_dshow_10 [of "[]"]]
  have a: "launchProcess (example_host Win32 []) (example_opts False (Some 10)) =
     Inr (''ffmpeg'',
       JStr ''-t'' # JStr ''10'' #
         tokens_of (launchProcess (example_host Win32 []) (example_opts False None)))"
    unfolding d n by (simp add: example_tokens_dshow_10 example_tokens_dshow tokens_of_def)
  from duration_flag_in_front [OF example_tokens_dshow [of "[]"]]
  have b: "JStr ''-t'' \<notin>
       set (flag_names (tokens_of (launchProcess (example_host Win32 []) (example_opts False None))))"
    unfolding d by (simp add: example_tokens_dshow tokens_of_def)
  have c: "take 2 (tokens_of (launchProcess (example_host Win32 []) (example_opts False (Some 10)))) =
       [JStr ''-t'', JStr ''10'']"
    by (simp add: example_tokens_dshow_10 tokens_of_def)
  from a b c show ?thesis by (simp only: simp_thms)
qed

text \<open>
  C4. The claim: the flags of the audio device are emitted under names with the prefix
  \<^verbatim>\<open>audio_\<close>. On \<^verbatim>\<open>linux\<close> with audio they are emitted as \<^verbatim>\<open>-f pulse -i default\<close>, and
  no token of the list is \<^verbatim>\<open>-audio_f\<close> or \<^verbatim>\<open>-audio_i\<close>.
\<close>

theorem audio_flag_names_counterexample:
  "launchProcess (example_host Linux []) (example_opts True None) =
     Inr (''ffmpeg'',
       [JStr ''-threads'', JNum (Fin 4), JStr ''-capture_cursor'', JNum (Fin 1),
        JStr ''-r'', JStr ''30'', JStr ''-video_size'', JStr ''800x600'',
        JStr ''-f'', JStr ''x11grab'', JStr ''-i'', JStr '':0.0'',
        JStr ''-f'', JStr ''pulse'', JStr ''-i'', JStr ''default'',
        JStr ''-b:a'', JStr ''384k'', JStr ''-c:a'', JStr ''aac'',
        JStr ''-ac'', JNum (Fin 1), JStr ''-vbr'', JNum (Fin 3),
        JStr ''-preset'', JStr ''ultrafast'', JStr ''-crf'', JNum (Fin 22),
        JStr ''-c:v'', JStr ''libx264'',
        JStr ''-vf'', JStr (squote @ ''crop=800:600:0:0'' @ squote),
        JStr ''out.mp4''])
   \<and> JStr ''-audio_f'' \<notin>
       set (tokens_of (launchProcess (example_host Linux []) (example_opts True None)))
   \<and> JStr ''-audio_i'' \<notin>
       set (tokens_of (launchProcess (example_host Linux []) (example_opts True None)))"
  by (simp add: example_tokens_linux_audio tokens_of_def)

theorem audio_device_flags_witness:
  "audio (example_opts True None)
   \<and> getInputDevices (example_host Linux []) (example_opts True None) =
       Inr (Some \<lparr> resolution = None,
                   video = [(''f'', JStr ''x11grab''), (''i'', JStr '':0.0'')],
                   audio_device = Some [(''f'', JStr ''pulse''), (''i'', JStr ''default'')] \<rparr>)
   \<and> (\<exists>pre post.
        tokens_of (launchProcess (example_host Linux []) (example_opts True None)) =
          pre @
          [JStr ''-f'', JStr ''x11grab'', JStr ''-i'', JStr '':0.0'',
           JStr ''-f'', JStr ''pulse'', JStr ''-i'', JStr ''default''] @
          post)"
proof -
  have a: "audio (example_opts True None)"
    by (simp add: example_opts_def)
  have g: "getInputDevices (example_host Linux []) (example_opts True None) =
       Inr (Some \<lparr> resolution = None,
                   video = [(''f'', JStr ''x11grab''), (''i'', JStr '':0.0'')],
                   audio_device = Some [(''f'', JStr ''pulse''), (''i'', JStr ''default'')] \<rparr>)"
    by (simp add: getInputDevices_def example_host_def example_opts_def)
  have t: "tokens_of (launchProcess (example_host Linux []) (example_opts True None)) =
      [JStr ''-threads'', JNum (Fin 4), JStr ''-capture_cursor'', JNum (Fin 1),
        JStr ''-r'', JStr ''30'', JStr ''-video_size'', JStr ''800x600'',
        JStr ''-f'', JStr ''x11grab'', JStr ''-i'', JStr '':0.0'',
        JStr ''-f'', JStr ''pulse'', JStr ''-i'', JStr ''default'',
        JStr ''-b:a'', JStr ''384k'', JStr ''-c:a'', JStr ''aac'',
        JStr ''-ac'', JNum (Fin 1), JStr ''-vbr'', JNum (Fin 3),
        JStr ''-preset'', JStr ''ultrafast'', JStr ''-crf'', JNum (Fin 22),
        JStr ''-c:v'', JStr ''libx264'',
        JStr ''-vf'', JStr (squote @ ''crop=800:600:0:0'' @ squote),
        JStr ''out.mp4'']"
    by (simp add: example_tokens_linux_audio tokens_of_def)
  have c: "custom_flags (example_opts True None) = Map.empty"
    by (simp add: custom_flags_def example_opts_def)
  from audio_device_flags [OF example_tokens_linux_audio [of "[]"] a g _ refl,
      of "[(''f'', JStr ''pulse''), (''i'', JStr ''default'')]"]
  have "\<exists>pre post.
        tokens_of (launchProcess (example_host Linux []) (example_opts True None)) =
          pre @
          [JStr ''-f'', JStr ''x11grab'', JStr ''-i'', JStr '':0.0'',
           JStr ''-f'', JStr ''pulse'', JStr ''-i'', JStr ''default''] @
          post"
    unfolding t c by (simp add: js_or_def flag_at_def table_at_def)
  with a g show ?thesis by (simp only: simp_thms)
qed

lemma js_or_flag_at: "js_or (flag_at src k) d = effective_value (src k) d"
  by (cases "src k") (simp_all add: js_or_def flag_at_def effective_value_def)

lemma launchProcess_input:
  "launchProcess h opts = Inr (b, toks) \<Longrightarrow> \<exists>input. getInputDevices h opts = Inr (Some input)"
  by (simp add: launchProcess_def Let_def split: sum.splits option.splits)

lemma inside_here: "\<exists>pre post. g @ r = pre @ g @ post"
  by (rule exI [of _ "[]"]) simp

lemma inside_skip:
  assumes "\<exists>pre post. r = pre @ g @ post"
  shows "\<exists>pre post. a @ r = pre @ g @ post"
proof -
  from assms obtain pre post where "r = pre @ g @ post" by blast
  then have "a @ r = (a @ pre) @ g @ post" by simp
  then show ?thesis by blast
qed

lemma inside_cons:
  assumes "\<exists>pre post. r = pre @ g @ post"
  shows "\<exists>pre post. x # r = pre @ g @ post"
  using inside_skip [OF assms, of "[x]"] by simp

lemma launchProcess_has_group:
  assumes "launchProcess h opts = Inr (b, toks)"
    and "tbl \<in> {recordingArgs_common, recordingArgs_audio, recordingArgs_video}"
    and "tbl = recordingArgs_audio \<longrightarrow> audio opts"
  shows "\<exists>pre post. toks = pre @ getAll (custom_flags opts) tbl None None @ post"
proof -
  obtain input where input: "getInputDevices h opts = Inr (Some input)"
    using launchProcess_input [OF assms(1)] by blast
  note t = launchProcess_tokens [OF input refl]
  have toks: "toks = tokens_of (launchProcess h opts)"
    by (simp add: assms(1) tokens_of_def)
  from assms(2) consider "tbl = recordingArgs_common" | "tbl = recordingArgs_video"
    | "tbl = recordingArgs_audio" by blast
  then show ?thesis
  proof cases
    case 1
    show ?thesis
      unfolding toks t 1
      apply (cases "audio opts")
       apply (simp_all add: tokens_of_def)
       apply (rule inside_here | rule inside_skip | rule inside_cons)+
      done
  next
    case 2
    show ?thesis
      unfolding toks t 2
      apply (cases "audio opts")
       apply (simp_all add: tokens_of_def)
       apply (rule inside_here | rule inside_skip | rule inside_cons)+
      done
  next
    case 3
    with assms(3) have a: "audio opts" by simp
    show ?thesis
      unfolding toks t 3
      apply (simp add: tokens_of_def a)
      apply (rule inside_here | rule inside_skip | rule inside_cons)+
      done
  qed
qed


lemma custom_flags_at:
  "custom_flags opts k = (case flags opts of None \<Rightarrow> None | Some m \<Rightarrow> m k)"
  by (simp add: custom_flags_def split: option.splits)

text \<open>
  C2. For every flag name \<open>k\<close> of a default group (common, audio or video), with
  default \<open>d\<close>, and every override object, the value emitted after \<open>-k\<close> is the
  override value when it is present and truthy, else \<open>d\<close>: the override at \<open>k\<close>, or
  at the alternate key \<open>a\<close> when \<^verbatim>\<open>get\<close> is given one. This is so for the pair that
  \<^verbatim>\<open>get\<close> returns, for the pair inside what \<^verbatim>\<open>getAll\<close> emits for the group, and for the
  pair inside the argument list of a launch, where the override object is
  \<^verbatim>\<open>opts.flags\<close> (the audio group is emitted when audio is requested). An override of
  0, of the empty string or of \<^verbatim>\<open>false\<close> does not suppress the default.
\<close>

theorem override_or_default:
  assumes "tbl \<in> {recordingArgs_common, recordingArgs_audio, recordingArgs_video}"
    and "(k, d) \<in> set tbl"
  shows "get src k tbl None = [JStr (''-'' @ k), effective_value (src k) d]
       \<and> (a \<noteq> [] \<longrightarrow>
            get src k tbl (Some a) = [JStr (''-'' @ k), effective_value (src a) d])
       \<and> (\<exists>pre post. getAll src tbl None None =
             pre @ [JStr (''-'' @ k), effective_value (src k) d] @ post)
       \<and> (launchProcess h opts = Inr (b, toks) \<and> (tbl = recordingArgs_audio \<longrightarrow> audio opts) \<longrightarrow>
            (\<exists>pre post. toks =
               pre @
               [JStr (''-'' @ k),
                effective_value (case flags opts of None \<Rightarrow> None | Some m \<Rightarrow> m k) d] @
               post))
       \<and> (src k = Some v \<and> v \<in> {JNum (Fin 0), JStr [], JBool False} \<longrightarrow>
            get src k tbl None = [JStr (''-'' @ k), d])"
proof -
  have d: "table_at tbl k = d"
    using groups_distinct [OF assms(1)] assms(2) by (rule table_at_member)
  have plain: "get src k tbl None = [JStr (''-'' @ k), effective_value (src k) d]" for src
    by (simp add: get_def key_or_def js_or_flag_at d)
  have keyed: "get src k tbl (Some k) = [JStr (''-'' @ k), effective_value (src k) d]" for src
    by (simp add: get_def js_or_flag_at d)
  have alt: "get src k tbl (Some a) = [JStr (''-'' @ k), effective_value (src a) d]"
    if "a \<noteq> []"
    using that by (simp add: get_def key_or_def js_or_flag_at d)
  have "k \<in> set (keys_of tbl)"
    using assms(2) by (force simp: keys_of_def)
  then have inside: "\<exists>pre post. getAll src tbl None None =
      pre @ [JStr (''-'' @ k), effective_value (src k) d] @ post" for src
    using getAll_member [of k tbl src] by (simp add: keyed)
  have launch: "\<exists>pre post. toks =
      pre @
      [JStr (''-'' @ k),
       effective_value (case flags opts of None \<Rightarrow> None | Some m \<Rightarrow> m k) d] @ post"
    if l: "launchProcess h opts = Inr (b, toks)"
      and au: "tbl = recordingArgs_audio \<longrightarrow> audio opts"
  proof -
    from launchProcess_has_group [OF l assms(1) au] obtain pre post where
      "toks = pre @ getAll (custom_flags opts) tbl None None @ post"
      by blast
    moreover from inside [of "custom_flags opts"] obtain pre' post' where
      "getAll (custom_flags opts) tbl None None =
         pre' @ [JStr (''-'' @ k), effective_value (custom_flags opts k) d] @ post'"
      by blast
    ultimately have "toks =
        (pre @ pre') @ [JStr (''-'' @ k), effective_value (custom_flags opts k) d] @
        (post' @ post)"
      by simp
    then show ?thesis
      unfolding custom_flags_at by blast
  qed
  have falsy: "get src k tbl None = [JStr (''-'' @ k), d]"
    if "src k = Some v \<and> v \<in> {JNum (Fin 0), JStr [], JBool False}"
    using that by (auto simp: plain effective_value_def)
  from plain [of src] alt inside [of src] launch falsy show ?thesis
    by blast
qed

lemma example_tokens_overrides:
  "launchProcess (example_host Win32 [])
     ((example_opts False None)\<lparr>flags := Some [''crf'' \<mapsto> JStr [], ''preset'' \<mapsto> JStr ''slow'']\<rparr>) =
     Inr (''ffmpeg'',
       [JStr ''-threads'', JNum (Fin 4), JStr ''-capture_cursor'', JNum (Fin 1),
        JStr ''-r'', JStr ''30'', JStr ''-video_size'', JStr ''800x600'',
        JStr ''-f'', JStr ''dshow'',
        JStr ''-i'', JStr (''video='' @ dquote @ ''screen-capture-recorder'' @ dquote),
        JStr ''-preset'', JStr ''slow'', JStr ''-crf'', JNum (Fin 22),
        JStr ''-c:v'', JStr ''libx264'',
        JStr ''-vf'', JStr (squote @ ''crop=800:600:0:0'' @ squote),
        JStr ''out.mp4''])"
  by (simp add: launchProcess_def getInputDevices_def example_host_def example_opts_def Let_def
      custom_flags_def getAll_one getAll_common getAll_video get_def js_or_def flag_at_def
      table_at_def show_int_def show_nat.simps digit_char_def)

theorem override_or_default_witness:
  "recordingArgs_video \<in> {recordingArgs_common, recordingArgs_audio, recordingArgs_video}
   \<and> (''crf'', JNum (Fin 22)) \<in> set recordingArgs_video
   \<and> get [''crf'' \<mapsto> JNum (Fin 0), ''quality'' \<mapsto> JNum (Fin 18)] ''crf'' recordingArgs_video None =
       [JStr ''-crf'', JNum (Fin 22)]
   \<and> get [''crf'' \<mapsto> JNum (Fin 0), ''quality'' \<mapsto> JNum (Fin 18)] ''crf'' recordingArgs_video
         (Some ''quality'') =
       [JStr ''-crf'', JNum (Fin 18)]
   \<and> (\<exists>pre post.
        tokens_of (launchProcess (example_host Win32 [])
          ((example_opts False None)
             \<lparr>flags := Some [''crf'' \<mapsto> JStr [], ''preset'' \<mapsto> JStr ''slow'']\<rparr>)) =
        pre @ [JStr ''-crf'', JNum (Fin 22)] @ post)
   \<and> (\<exists>pre post.
        tokens_of (launchProcess (example_host Win32 [])
          ((example_opts False None)
             \<lparr>flags := Some [''crf'' \<mapsto> JStr [], ''preset'' \<mapsto> JStr ''slow'']\<rparr>)) =
        pre @ [JStr ''-preset'', JStr ''slow''] @ post)"
proof -
  let ?src = "[''crf'' \<mapsto> JNum (Fin 0), ''quality'' \<mapsto> JNum (Fin 18)]"
  let ?opts = "(example_opts False None)
      \<lparr>flags := Some [''crf'' \<mapsto> JStr [], ''preset'' \<mapsto> JStr ''slow'']\<rparr>"
  have g: "recordingArgs_video \<in> {recordingArgs_common, recordingArgs_audio, recordingArgs_video}"
    by simp
  have crf: "(''crf'', JNum (Fin 22)) \<in> set recordingArgs_video"
    and preset: "(''preset'', JStr ''ultrafast'') \<in> set recordingArgs_video"
    by (simp_all add: recordingArgs_video_def)
  have not_audio: "recordingArgs_video \<noteq> recordingArgs_audio"
    by (simp add: recordingArgs_video_def recordingArgs_audio_def)
  have t: "tokens_of (launchProcess (example_host Win32 []) ?opts) = toks"
    if "launchProcess (example_host Win32 []) ?opts = Inr (b, toks)" for b toks
    using that by (simp add: tokens_of_def)
  have f: "flags ?opts = Some [''crf'' \<mapsto> JStr [], ''preset'' \<mapsto> JStr ''slow'']"
    by (simp add: example_opts_def)
  note crf_rule = override_or_default [OF g crf, where src = ?src and a = "''quality''"
      and h = "example_host Win32 []" and opts = ?opts and b = "''ffmpeg''"]
  note preset_rule = override_or_default [OF g preset, where src = ?src and a = "''quality''"
      and h = "example_host Win32 []" and opts = ?opts and b = "''ffmpeg''"]
  have 1: "get ?src ''crf'' recordingArgs_video None = [JStr ''-crf'', JNum (Fin 22)]"
    using crf_rule by (simp add: effective_value_def)
  have 2: "get ?src ''crf'' recordingArgs_video (Some ''quality'') = [JStr ''-crf'', JNum (Fin 18)]"
    using crf_rule by (simp add: effective_value_def)
  have 3: "\<exists>pre post. tokens_of (launchProcess (example_host Win32 []) ?opts) =
      pre @ [JStr ''-crf'', JNum (Fin 22)] @ post"
    using crf_rule example_tokens_overrides not_audio
    by (simp add: effective_value_def f tokens_of_def)
  have 4: "\<exists>pre post. tokens_of (launchProcess (example_host Win32 []) ?opts) =
      pre @ [JStr ''-preset'', JStr ''slow''] @ post"
    using preset_rule example_tokens_overrides not_audio
    by (simp add: effective_value_def f tokens_of_def)
  from g crf 1 2 3 4 show ?thesis by (simp only: simp_thms)
qed

section \<open>Properties of the device resolution\<close>

lemma bracket_plain [simp]:
  "\<not> is_digit CHR ''[''" "\<not> is_space CHR ''[''" "\<not> is_digit CHR '']''" "lower CHR ''['' = CHR ''[''"
  by (simp_all add: is_digit_def is_space_def lower_def)

lemma takeWhile_before_bracket:
  "\<not> P CHR ''['' \<Longrightarrow> takeWhile P (s @ CHR ''['' # r) = takeWhile P s"
  by (induction s) simp_all

lemma dropWhile_before_bracket:
  "\<not> P CHR ''['' \<Longrightarrow> dropWhile P (s @ CHR ''['' # r) = dropWhile P s @ CHR ''['' # r"
  by (induction s) simp_all

text \<open>
  Each piece of the patterns reads a text that is followed by an opening bracket as it
  reads the text alone: the bracket ends every run and matches no letter.
\<close>

lemma lit_before_bracket:
  "c \<noteq> CHR ''['' \<or> s \<noteq> [] \<Longrightarrow>
     lit c (s @ CHR ''['' # r) = map_option (\<lambda>u. u @ CHR ''['' # r) (lit c s)"
  by (cases s) (auto simp: lit_def)

lemma digits1_before_bracket:
  "digits1 (s @ CHR ''['' # r) = map_option (\<lambda>(ds, u). (ds, u @ CHR ''['' # r)) (digits1 s)"
  by (simp add: digits1_def takeWhile_before_bracket dropWhile_before_bracket)

lemma spaces1_before_bracket:
  "spaces1 (s @ CHR ''['' # r) = map_option (\<lambda>u. u @ CHR ''['' # r) (spaces1 s)"
  by (cases s) (simp_all add: spaces1_def dropWhile_before_bracket)

lemma lit_ci_before_bracket:
  assumes "CHR ''['' \<notin> set (map lower p)"
  shows "lit_ci p (s @ CHR ''['' # r) = map_option (\<lambda>u. u @ CHR ''['' # r) (lit_ci p s)"
proof (cases "length p \<le> length s")
  case True
  then show ?thesis by (simp add: lit_ci_def)
next
  case False
  then have short: "length s < length p" by simp
  have "map lower (take (length p) (s @ CHR ''['' # r)) \<noteq> map lower p"
  proof
    assume eq: "map lower (take (length p) (s @ CHR ''['' # r)) = map lower p"
    have "map lower (take (length p) (s @ CHR ''['' # r)) ! length s = CHR ''[''"
      using short by (simp add: nth_append)
    with eq have "map lower p ! length s = CHR ''[''" by simp
    moreover have "map lower p ! length s \<in> set (map lower p)"
      by (rule nth_mem) (simp add: short)
    ultimately show False using assms by simp
  qed
  with short show ?thesis by (simp add: lit_ci_def)
qed

lemma word_plain:
  "CHR ''['' \<notin> set (map lower ''Capture'')" "CHR ''['' \<notin> set (map lower ''Screen'')"
  by (simp_all add: lower_def)

lemma bind_map_option:
  "Option.bind (map_option f x) g = Option.bind x (\<lambda>y. g (f y))"
  by (cases x) simp_all

lemma screen_at_before_bracket:
  assumes "s \<noteq> []"
  shows "screen_at (s @ CHR ''['' # r) = screen_at s"
  using assms
  by (simp add: screen_at_def lit_before_bracket digits1_before_bracket spaces1_before_bracket
      lit_ci_before_bracket [OF word_plain(1)] lit_ci_before_bracket [OF word_plain(2)]
      bind_map_option case_prod_unfold)

lemma match_first_before_bracket:
  "match_first screen_at pre = None \<Longrightarrow>
     match_first screen_at (pre @ CHR ''['' # r) = match_first screen_at (CHR ''['' # r)"
proof (induction pre)
  case Nil
  show ?case by simp
next
  case (Cons c pre)
  from Cons.prems have here: "screen_at (c # pre) = None"
    and later: "match_first screen_at pre = None"
    by (simp_all split: option.splits)
  have "screen_at ((c # pre) @ CHR ''['' # r) = None"
    using here screen_at_before_bracket [of "c # pre" r] by simp
  then have "match_first screen_at ((c # pre) @ CHR ''['' # r) =
      match_first screen_at (pre @ CHR ''['' # r)"
    by simp
  with Cons.IH [OF later] show ?case by simp
qed

text \<open>The pattern on an entry: digits in brackets, the two words, white space between.\<close>

lemma word_ci:
  assumes "map lower w = map lower p"
  shows "lit_ci p (w @ r) = Some r"
proof -
  from assms have "length w = length p"
    by (metis length_map)
  with assms show ?thesis by (simp add: lit_ci_def)
qed


lemma lowered_words:
  "map lower ''Capture'' = ''capture''" "map lower ''Screen'' = ''screen''"
  by (simp_all add: lower_def)

lemma space_is_plain: "is_space c \<Longrightarrow> lower c = c"
proof -
  assume "is_space c"
  then have c: "c \<in> set [CHR 0x09, CHR 0x0A, CHR 0x0B, CHR 0x0C, CHR 0x0D, CHR 0x20, CHR 0xA0]"
    by (simp only: is_space_def)
  have "\<forall>c\<in>set [CHR 0x09, CHR 0x0A, CHR 0x0B, CHR 0x0C, CHR 0x0D, CHR 0x20, CHR 0xA0].
      lower c = c"
    by (simp add: lower_def)
  then show ?thesis using c by (rule bspec)
qed

lemma letter_not_space: "lower c = CHR ''c'' \<Longrightarrow> \<not> is_space c"
proof
  assume "lower c = CHR ''c''" and "is_space c"
  then have "is_space CHR ''c''" by (simp add: space_is_plain)
  then show False by (simp add: is_space_def)
qed

lemma digits1_run:
  assumes "ds \<noteq> []" and "\<forall>c\<in>set ds. is_digit c"
  shows "digits1 (ds @ CHR '']'' # r) = Some (ds, CHR '']'' # r)"
proof -
  have "takeWhile is_digit (ds @ CHR '']'' # r) = ds"
    using assms(2) by (simp add: takeWhile_append2)
  moreover have "dropWhile is_digit (ds @ CHR '']'' # r) = CHR '']'' # r"
    using assms(2) by (simp add: dropWhile_append2)
  ultimately show ?thesis using assms(1) by (simp add: digits1_def)
qed

lemma spaces1_run:
  assumes "ws \<noteq> []" and "\<forall>c\<in>set ws. is_space c" and "\<not> is_space c"
  shows "spaces1 (ws @ c # r) = Some (c # r)"
proof -
  from assms(1) obtain w ws0 where ws: "ws = w # ws0" by (cases ws) auto
  have "dropWhile is_space (ws0 @ c # r) = c # r"
    using assms(2,3) by (simp add: ws dropWhile_append2)
  then show ?thesis using assms(2) by (simp add: ws spaces1_def)
qed

lemma screen_at_entry:
  assumes "ds \<noteq> []" and "\<forall>c\<in>set ds. is_digit c"
    and "ws \<noteq> []" and "\<forall>c\<in>set ws. is_space c"
    and "ws' \<noteq> []" and "\<forall>c\<in>set ws'. is_space c"
    and cap: "map lower cap = ''capture''" and scr: "map lower scr = ''screen''"
  shows "screen_at (CHR ''['' # ds @ CHR '']'' # ws @ cap @ ws' @ scr @ post) = Some ds"
proof -
  from cap obtain c cap0 where c: "cap = c # cap0" "\<not> is_space c"
    by (cases cap) (auto simp: letter_not_space)
  have s_plain: "\<not> is_space x" if "lower x = CHR ''s''" for x
  proof
    assume "is_space x"
    with that have "is_space CHR ''s''" by (simp add: space_is_plain)
    then show False by (simp add: is_space_def)
  qed
  from scr obtain s scr0 where s: "scr = s # scr0" "\<not> is_space s"
    by (cases scr) (auto simp: s_plain)
  have 1: "lit CHR ''['' (CHR ''['' # ds @ CHR '']'' # ws @ cap @ ws' @ scr @ post) =
      Some (ds @ CHR '']'' # ws @ cap @ ws' @ scr @ post)"
    by (simp add: lit_def)
  have 2: "digits1 (ds @ CHR '']'' # ws @ cap @ ws' @ scr @ post) =
      Some (ds, CHR '']'' # ws @ cap @ ws' @ scr @ post)"
    by (rule digits1_run) fact+
  have 3: "lit CHR '']'' (CHR '']'' # ws @ cap @ ws' @ scr @ post) =
      Some (ws @ cap @ ws' @ scr @ post)"
    by (simp add: lit_def)
  have 4: "spaces1 (ws @ cap @ ws' @ scr @ post) = Some (cap @ ws' @ scr @ post)"
    using spaces1_run [OF assms(3,4) c(2), of "cap0 @ ws' @ scr @ post"] by (simp add: c(1))
  have 5: "lit_ci ''Capture'' (cap @ ws' @ scr @ post) = Some (ws' @ scr @ post)"
    by (rule word_ci) (simp only: cap lowered_words)
  have 6: "spaces1 (ws' @ scr @ post) = Some (scr @ post)"
    using spaces1_run [OF assms(5,6) s(2), of "scr0 @ post"] by (simp add: s(1))
  have 7: "lit_ci ''Screen'' (scr @ post) = Some post"
    by (rule word_ci) (simp only: scr lowered_words)
  show ?thesis
    unfolding screen_at_def by (simp only: 1 2 3 4 5 6 7 Option.bind.simps prod.case)
qed

lemma match_first_here: "m s = Some v \<Longrightarrow> match_first m s = Some v"
  by (cases s) simp_all

text \<open>
  C5, as amended. On \<^verbatim>\<open>darwin\<close> with audio disabled the resolution asks for no
  microphone: when the discovery text has a Capture Screen entry with index \<open>ds\<close> and no
  such entry before it, the device selector is \<open>ds\<close>, a colon and \<^verbatim>\<open>none\<close>, in single
  quotes, whatever stands around the entry.
\<close>

theorem first_screen_entry_selected:
  assumes "\<not> audio opts"
    and "listing = pre @ ''['' @ ds @ '']'' @ ws @ cap @ ws' @ scr @ post"
    and "match_first screen_at pre = None"
    and "ds \<noteq> []" and "\<forall>c\<in>set ds. is_digit c"
    and "ws \<noteq> []" and "\<forall>c\<in>set ws. is_space c"
    and "ws' \<noteq> []" and "\<forall>c\<in>set ws'. is_space c"
    and "map lower cap = ''capture''" and "map lower scr = ''screen''"
  shows "getMacInputDevices listing opts = Inr (squote @ ds @ '':none'' @ squote)"
proof -
  have entry: "screen_at (CHR ''['' # ds @ CHR '']'' # ws @ cap @ ws' @ scr @ post) = Some ds"
    by (rule screen_at_entry) fact+
  have "match_first screen_at listing =
      match_first screen_at (CHR ''['' # ds @ CHR '']'' # ws @ cap @ ws' @ scr @ post)"
    using match_first_before_bracket [OF assms(3)] by (simp add: assms(2))
  also have "\<dots> = Some ds"
    using entry by (rule match_first_here)
  finally show ?thesis
    using assms(1) by (simp add: getMacInputDevices_def)
qed

lemma example_no_entry:
  "match_first screen_at (''[0] FaceTime HD Camera'' @ [CHR 0x0A]) = None"
  by (simp add: screen_at_def lit_def digits1_def spaces1_def lit_ci_def is_digit_def
      is_space_def lower_def)

theorem first_screen_entry_selected_witness:
  "\<not> audio (example_opts False None)
   \<and> match_first screen_at (''[0] FaceTime HD Camera'' @ [CHR 0x0A]) = None
   \<and> getMacInputDevices
       (''[0] FaceTime HD Camera'' @ [CHR 0x0A] @ ''[1] Capture screen 0'' @ [CHR 0x0A] @
        ''[2] Capture screen 1'' @ [CHR 0x0A] @ ''[0] Built-in Microphone'')
       (example_opts False None) =
     Inr (squote @ ''1:none'' @ squote)"
proof -
  have a: "\<not> audio (example_opts False None)"
    by (simp add: example_opts_def)
  have l: "''[0] FaceTime HD Camera'' @ [CHR 0x0A] @ ''[1] Capture screen 0'' @ [CHR 0x0A] @
        ''[2] Capture screen 1'' @ [CHR 0x0A] @ ''[0] Built-in Microphone'' =
      (''[0] FaceTime HD Camera'' @ [CHR 0x0A]) @ ''['' @ ''1'' @ '']'' @ '' '' @ ''Capture'' @
        '' '' @ ''screen'' @
        ('' 0'' @ [CHR 0x0A] @ ''[2] Capture screen 1'' @ [CHR 0x0A] @ ''[0] Built-in Microphone'')"
    by simp
  have r: "getMacInputDevices
       (''[0] FaceTime HD Camera'' @ [CHR 0x0A] @ ''[1] Capture screen 0'' @ [CHR 0x0A] @
        ''[2] Capture screen 1'' @ [CHR 0x0A] @ ''[0] Built-in Microphone'')
       (example_opts False None) =
     Inr (squote @ ''1'' @ '':none'' @ squote)"
    by (rule first_screen_entry_selected [OF a l example_no_entry])
       (simp_all add: is_digit_def is_space_def lower_def)
  from a example_no_entry r show ?thesis by simp
qed

text \<open>
  C5. The claim: whenever the discovery text has a Capture Screen entry with index
  \<open>n\<close>, the selector names \<open>n\<close>. With two screens the text has an entry with index 1
  and an entry with index 2, and the selector names the first: the entry with index 2
  is in the text and the result is not \<^verbatim>\<open>'2:none'\<close>.
\<close>

theorem second_screen_entry_counterexample:
  "screen_at ''[2] Capture screen 1'' = Some ''2''
   \<and> getMacInputDevices (''[1] Capture screen 0'' @ [CHR 0x0A] @ ''[2] Capture screen 1'')
       (example_opts False None) =
     Inr (squote @ ''1:none'' @ squote)
   \<and> getMacInputDevices (''[1] Capture screen 0'' @ [CHR 0x0A] @ ''[2] Capture screen 1'')
       (example_opts False None) \<noteq>
     Inr (squote @ ''2:none'' @ squote)"
  by (simp add: getMacInputDevices_def example_opts_def screen_at_def lit_def digits1_def
      spaces1_def lit_ci_def is_digit_def is_space_def lower_def)

text \<open>The desktop query, the device scan and a launch on \<^verbatim>\<open>darwin\<close>, computed.\<close>

lemma example_desktop_data:
  "on_desktop_data ''0, 0, 1440, 900'' = (Some 1440, Some 900)"
  "on_desktop_data ''0, 0'' = (None, None)"
  by (simp_all add: on_desktop_data_def sep_at_def is_space_def element_def show_element_def
      parseInt_def is_digit_def digit_value_def)

lemma example_microphone:
  "getMacInputDevices
     (''[1] Capture screen 0'' @ [CHR 0x0A] @ ''[0] MacBook Pro Microphone'')
     (example_opts True None) = Inr (squote @ ''1:0'' @ squote)"
  "getMacInputDevices ''[1] Capture screen 0'' (example_opts True None) =
     Inl MicrophoneDeviceNotFound"
  "getMacInputDevices ''[0] FaceTime HD Camera'' (example_opts False None) =
     Inl ScreenDeviceNotFound"
  by (simp_all add: getMacInputDevices_def example_opts_def screen_at_def microphone_at_def
      lit_def digits1_def spaces1_def lit_ci_def is_digit_def is_space_def lower_def)

lemma example_tokens_darwin:
  "launchProcess (example_host Darwin ''[1] Capture screen 0'') (example_opts False None) =
     Inr (''ffmpeg'',
       [JStr ''-threads'', JNum (Fin 4), JStr ''-capture_cursor'', JNum (Fin 1),
        JStr ''-r'', JStr ''30'', JStr ''-video_size'', JStr ''800x600'',
        JStr ''-f'', JStr ''avfoundation'', JStr ''-i'', JStr (squote @ ''1:none'' @ squote),
        JStr ''-preset'', JStr ''ultrafast'', JStr ''-crf'', JNum (Fin 22),
        JStr ''-c:v'', JStr ''libx264'',
        JStr ''-vf'',
        JStr (squote @ ''scale=1440:900:flags=lanczos,crop=800:600:0:0'' @ squote),
        JStr ''out.mp4''])"
  by (simp add: launchProcess_def getInputDevices_def example_host_def example_opts_def Let_def
      custom_flags_def getAll_one getAll_common getAll_video get_def js_or_def flag_at_def
      table_at_def show_int_def show_nat.simps digit_char_def show_parsed_def
      example_desktop_data getMacInputDevices_def screen_at_def lit_def digits1_def
      spaces1_def lit_ci_def is_digit_def is_space_def lower_def)

section \<open>Properties of the transcode\<close>

text \<open>
  When the pattern occurs nowhere before the end of the text, the occurrence that is
  replaced is the suffix.
\<close>

lemma replace_first_suffix:
  assumes "\<forall>i<length base. take (length pat) (drop i (base @ pat)) \<noteq> pat"
  shows "replace_first pat rep (base @ pat) = base @ rep"
  using assms
proof (induction base)
  case Nil
  show ?case by (cases pat) simp_all
next
  case (Cons c base)
  from Cons.prems have here: "take (length pat) ((c # base) @ pat) \<noteq> pat"
    by (metis drop0 length_greater_0_conv list.distinct(1))
  have "\<forall>i<length base. take (length pat) (drop i (base @ pat)) \<noteq> pat"
  proof (intro allI impI)
    fix i assume "i < length base"
    then have "Suc i < length (c # base)" by simp
    with Cons.prems have "take (length pat) (drop (Suc i) ((c # base) @ pat)) \<noteq> pat"
      by blast
    then show "take (length pat) (drop i (base @ pat)) \<noteq> pat" by simp
  qed
  from Cons.IH [OF this] here show ?case by simp
qed

lemma example_replace:
  "replace_first ''.mp4'' ''.gif'' ''out.mp4'' = ''out.gif''"
  "replace_first ''.mp4'' ''.gif'' ''/v/raw.mp4/take1.mp4'' = ''/v/raw.gif/take1.mp4''"
  "replace_first ''.mp4'' ''.gif'' ''out.mov'' = ''out.mov''"
  by simp_all

lemma gif_filter_shape:
  "\<exists>w t. gif_filter opts =
     ''fps='' @ show_int (fps opts) @ '',scale='' @ w @ '':'' @ t @ '':flags=lanczos''"
proof (cases "scale opts")
  case None
  then have "gif_filter opts =
      ''fps='' @ show_int (fps opts) @ '',scale='' @ show_int (width (bounds opts)) @ '':'' @
      show_int (height (bounds opts)) @ '':flags=lanczos''"
    by (simp add: gif_filter_def)
  then show ?thesis by blast
next
  case (Some s)
  show ?thesis
  proof (cases "truthy_num s")
    case True
    with Some have "gif_filter opts =
        ''fps='' @ show_int (fps opts) @ '',scale='' @
        show_trunc (times_int (width (bounds opts)) s) @ '':'' @
        show_trunc (times_int (height (bounds opts)) s) @ '':flags=lanczos''"
      by (simp add: gif_filter_def)
    then show ?thesis by blast
  next
    case False
    with Some have "gif_filter opts =
        ''fps='' @ show_int (fps opts) @ '',scale='' @ show_int (width (bounds opts)) @ '':'' @
        show_int (height (bounds opts)) @ '':flags=lanczos''"
      by (simp add: gif_filter_def)
    then show ?thesis by blast
  qed
qed

lemma generateGIF_spawned:
  assumes "configured_ffmpeg h = Some ffmpeg" and "ffmpeg \<noteq> []" and "palette_ok h"
  shows "generateGIF h opts =
     ([(ffmpeg, [JStr ''-i'', JStr (file_path opts), JStr ''-vf'',
                 JStr (gif_filter opts @ '',palettegen=stats_mode=diff''), JStr ''-y'',
                 JStr (path_resolve h (tmpdir h) ''palette-gen.png'')]),
       (ffmpeg, [JStr ''-i'', JStr (file_path opts), JStr ''-i'',
                 JStr (path_resolve h (tmpdir h) ''palette-gen.png''),
                 JStr ''-lavfi'',
                 JStr (dquote @ gif_filter opts @
                   '',paletteuse=dither=bayer:bayer_scale=5:diff_mode=rectangle'' @ dquote),
                 JStr ''-y'', JStr (replace_first ''.mp4'' ''.gif'' (file_path opts))])],
      Inr (Some (replace_first ''.mp4'' ''.gif'' (file_path opts))))"
  using assms by (simp add: generateGIF_def Let_def)

lemma example_host_ready:
  "configured_ffmpeg (example_host p l) = Some ''ffmpeg''"
  "''ffmpeg'' \<noteq> []"
  "palette_ok (example_host p l)"
  by (simp_all add: example_host_def)

text \<open>
  Scaled sizes, computed. The double nearest to 0.3 is \<open>5404319552844595 / 2^54\<close>,
  a little below 0.3: its exact products with 1920 and 1080 lie below 576 and 324 and
  round to them.
\<close>

lemma example_scaled:
  "show_trunc (times_int 800 (Fin (1 / 2))) = ''400''"
  "show_trunc (times_int 600 (Fin (1 / 2))) = ''300''"
  "show_trunc (times_int 1920 (Fin (5404319552844595 / 18014398509481984))) = ''576''"
  "show_trunc (times_int 1080 (Fin (5404319552844595 / 18014398509481984))) = ''324''"
  by code_simp+

lemma example_gif_filter:
  "gif_filter (example_gif p None) = ''fps=30,scale=800:600:flags=lanczos''"
  "gif_filter (example_gif p (Some (Fin 0))) = ''fps=30,scale=800:600:flags=lanczos''"
  "gif_filter (example_gif p (Some NaN)) = ''fps=30,scale=800:600:flags=lanczos''"
  "gif_filter (example_gif p (Some (Fin (1 / 2)))) = ''fps=30,scale=400:300:flags=lanczos''"
  by (simp_all add: gif_filter_def example_gif_def example_scaled show_int_def show_nat.simps
      digit_char_def del: times_int.simps)

text \<open>
  C6. The claim: for a recording whose path ends in \<^verbatim>\<open>.mp4\<close>, a successful transcode
  returns the path with that suffix replaced by \<^verbatim>\<open>.gif\<close>. The source replaces the
  first \<^verbatim>\<open>.mp4\<close> of the path, which is not the suffix when the path has another one
  before: for the recording \<^verbatim>\<open>/v/raw.mp4/take1.mp4\<close> the second pass writes to, and the
  call returns, \<^verbatim>\<open>/v/raw.gif/take1.mp4\<close>.
\<close>

theorem transcode_replaces_first_mp4:
  "generateGIF (example_host Linux []) (example_gif ''/v/raw.mp4/take1.mp4'' None) =
    ([(''ffmpeg'',
       [JStr ''-i'', JStr ''/v/raw.mp4/take1.mp4'', JStr ''-vf'',
        JStr ''fps=30,scale=800:600:flags=lanczos,palettegen=stats_mode=diff'',
        JStr ''-y'', JStr ''/tmp/palette-gen.png'']),
      (''ffmpeg'',
       [JStr ''-i'', JStr ''/v/raw.mp4/take1.mp4'', JStr ''-i'', JStr ''/tmp/palette-gen.png'',
        JStr ''-lavfi'',
        JStr (dquote @ ''fps=30,scale=800:600:flags=lanczos'' @
          '',paletteuse=dither=bayer:bayer_scale=5:diff_mode=rectangle'' @ dquote),
        JStr ''-y'', JStr ''/v/raw.gif/take1.mp4''])],
     Inr (Some ''/v/raw.gif/take1.mp4''))"
  by (simp add: generateGIF_spawned [OF example_host_ready] example_gif_filter)
     (simp add: example_gif_def example_host_def)

text \<open>
  C7. The claim: the filter string of the palette-generation pass and the filter string
  of the palette-use pass start with the same text \<^verbatim>\<open>fps=...,scale=...:flags=lanczos\<close>.
  The second string starts with a double quote, the first with \<^verbatim>\<open>f\<close>: as they are
  handed to the encoder the two strings have no common prefix but the empty one.
\<close>

theorem palette_filters_prefix_counterexample:
  "fst (generateGIF (example_host Linux []) (example_gif ''out.mp4'' None)) =
     [(''ffmpeg'', [JStr ''-i'', JStr ''out.mp4'', JStr ''-vf'',
         JStr ''fps=30,scale=800:600:flags=lanczos,palettegen=stats_mode=diff'',
         JStr ''-y'', JStr ''/tmp/palette-gen.png'']),
      (''ffmpeg'', [JStr ''-i'', JStr ''out.mp4'', JStr ''-i'', JStr ''/tmp/palette-gen.png'',
         JStr ''-lavfi'',
         JStr (dquote @ ''fps=30,scale=800:600:flags=lanczos'' @
           '',paletteuse=dither=bayer:bayer_scale=5:diff_mode=rectangle'' @ dquote),
         JStr ''-y'', JStr ''out.gif''])]
   \<and> take 1 ''fps=30,scale=800:600:flags=lanczos,palettegen=stats_mode=diff'' \<noteq>
       take 1 (dquote @ ''fps=30,scale=800:600:flags=lanczos'' @
           '',paletteuse=dither=bayer:bayer_scale=5:diff_mode=rectangle'' @ dquote)"
  by (simp add: generateGIF_spawned [OF example_host_ready] example_gif_filter)
     (simp add: example_gif_def example_host_def)

text \<open>
  C7, as amended. Within one transcode call, whatever the scale factor, there is one text
  \<open>p\<close> of the form \<^verbatim>\<open>fps=...,scale=...:...:flags=lanczos\<close> such that the filter string
  of the palette-generation pass is \<open>p\<close> followed by \<^verbatim>\<open>,palettegen=stats_mode=diff\<close>, and
  the filter string of the palette-use pass is a double quote, \<open>p\<close>, the \<^verbatim>\<open>paletteuse\<close>
  stage and a closing double quote: the two share the prefix \<open>p\<close> once the opening
  quote of the second is set aside.
\<close>

theorem palette_passes_share_prefix:
  assumes "configured_ffmpeg h = Some ffmpeg" and "ffmpeg \<noteq> []" and "palette_ok h"
  shows "\<exists>w t p palette final.
           p = ''fps='' @ show_int (fps opts) @ '',scale='' @ w @ '':'' @ t @ '':flags=lanczos''
         \<and> fst (generateGIF h opts) =
             [(ffmpeg, [JStr ''-i'', JStr (file_path opts), JStr ''-vf'',
                        JStr (p @ '',palettegen=stats_mode=diff''), JStr ''-y'', JStr palette]),
              (ffmpeg, [JStr ''-i'', JStr (file_path opts), JStr ''-i'', JStr palette,
                        JStr ''-lavfi'',
                        JStr (dquote @ p @
                          '',paletteuse=dither=bayer:bayer_scale=5:diff_mode=rectangle'' @ dquote),
                        JStr ''-y'', JStr final])]"
proof -
  obtain w t where p: "gif_filter opts =
      ''fps='' @ show_int (fps opts) @ '',scale='' @ w @ '':'' @ t @ '':flags=lanczos''"
    using gif_filter_shape by blast
  show ?thesis
    unfolding generateGIF_spawned [OF assms] fst_conv p by blast
qed

theorem palette_passes_share_prefix_witness:
  "configured_ffmpeg (example_host Linux []) = Some ''ffmpeg'' \<and>
   palette_ok (example_host Linux []) \<and>
   fst (generateGIF (example_host Linux []) (example_gif ''out.mp4'' (Some (Fin (1 / 2))))) =
     [(''ffmpeg'', [JStr ''-i'', JStr ''out.mp4'', JStr ''-vf'',
         JStr (''fps=30,scale=400:300:flags=lanczos'' @ '',palettegen=stats_mode=diff''),
         JStr ''-y'', JStr ''/tmp/palette-gen.png'']),
      (''ffmpeg'', [JStr ''-i'', JStr ''out.mp4'', JStr ''-i'', JStr ''/tmp/palette-gen.png'',
         JStr ''-lavfi'',
         JStr (dquote @ ''fps=30,scale=400:300:flags=lanczos'' @
           '',paletteuse=dither=bayer:bayer_scale=5:diff_mode=rectangle'' @ dquote),
         JStr ''-y'', JStr ''out.gif''])]"
proof -
  have g: "fst (generateGIF (example_host Linux []) (example_gif ''out.mp4'' (Some (Fin (1 / 2))))) =
     [(''ffmpeg'', [JStr ''-i'', JStr ''out.mp4'', JStr ''-vf'',
         JStr (''fps=30,scale=400:300:flags=lanczos'' @ '',palettegen=stats_mode=diff''),
         JStr ''-y'', JStr ''/tmp/palette-gen.png'']),
      (''ffmpeg'', [JStr ''-i'', JStr ''out.mp4'', JStr ''-i'', JStr ''/tmp/palette-gen.png'',
         JStr ''-lavfi'',
         JStr (dquote @ ''fps=30,scale=400:300:flags=lanczos'' @
           '',paletteuse=dither=bayer:bayer_scale=5:diff_mode=rectangle'' @ dquote),
         JStr ''-y'', JStr ''out.gif''])]"
    by (simp add: generateGIF_spawned [OF example_host_ready] example_gif_filter)
       (simp add: example_gif_def example_host_def)
  show ?thesis
    using palette_passes_share_prefix [where h = "example_host Linux []"
        and opts = "example_gif ''out.mp4'' (Some (Fin (1 / 2)))", OF example_host_ready]
    by (simp only: example_host_ready g simp_thms)
qed

text \<open>
  C8. When the configuration resolves no encoder binary, a transcode call spawns no
  process, raises no error and returns no result.
\<close>

theorem no_encoder_no_transcode:
  "generateGIF (h\<lparr>configured_ffmpeg := None\<rparr>) opts = ([], Inr None)"
  by (simp add: generateGIF_def)

text \<open>
  C9. The claim: two distinct transcode calls never use the same temporary palette file.
  They always do: the two calls below, for two different recordings, both write their
  palette to \<^verbatim>\<open>/tmp/palette-gen.png\<close> and read it back from there.
\<close>

theorem palette_file_shared_counterexample:
  "example_gif ''a.mp4'' None \<noteq> example_gif ''b.mp4'' None \<and>
   fst (generateGIF (example_host Linux []) (example_gif ''a.mp4'' None)) =
     [(''ffmpeg'', [JStr ''-i'', JStr ''a.mp4'', JStr ''-vf'',
         JStr ''fps=30,scale=800:600:flags=lanczos,palettegen=stats_mode=diff'',
         JStr ''-y'', JStr ''/tmp/palette-gen.png'']),
      (''ffmpeg'', [JStr ''-i'', JStr ''a.mp4'', JStr ''-i'', JStr ''/tmp/palette-gen.png'',
         JStr ''-lavfi'',
         JStr (dquote @ ''fps=30,scale=800:600:flags=lanczos'' @
           '',paletteuse=dither=bayer:bayer_scale=5:diff_mode=rectangle'' @ dquote),
         JStr ''-y'', JStr ''a.gif''])] \<and>
   fst (generateGIF (example_host Linux []) (example_gif ''b.mp4'' None)) =
     [(''ffmpeg'', [JStr ''-i'', JStr ''b.mp4'', JStr ''-vf'',
         JStr ''fps=30,scale=800:600:flags=lanczos,palettegen=stats_mode=diff'',
         JStr ''-y'', JStr ''/tmp/palette-gen.png'']),
      (''ffmpeg'', [JStr ''-i'', JStr ''b.mp4'', JStr ''-i'', JStr ''/tmp/palette-gen.png'',
         JStr ''-lavfi'',
         JStr (dquote @ ''fps=30,scale=800:600:flags=lanczos'' @
           '',paletteuse=dither=bayer:bayer_scale=5:diff_mode=rectangle'' @ dquote),
         JStr ''-y'', JStr ''b.gif''])]"
proof (intro conjI)
  show "example_gif ''a.mp4'' None \<noteq> example_gif ''b.mp4'' None"
    by (simp add: example_gif_def)
qed ((simp add: generateGIF_spawned [OF example_host_ready] example_gif_filter),
     (simp add: example_gif_def example_host_def))+

text \<open>
  C9, as amended. Every transcode call builds its own argument lists, but the temporary
  palette file is the same for all calls on a host: it is
  \<^verbatim>\<open>path.resolve(os.tmpdir(), 'palette-gen.png')\<close>, whatever the options of the call.
\<close>

theorem palette_file_fixed:
  assumes "configured_ffmpeg h = Some ffmpeg" and "ffmpeg \<noteq> []"
  shows "\<exists>args1 rest1 args2 rest2.
           fst (generateGIF h opts1) =
             (ffmpeg, args1 @ [JStr ''-y'', JStr (path_resolve h (tmpdir h) ''palette-gen.png'')])
               # rest1
         \<and> fst (generateGIF h opts2) =
             (ffmpeg, args2 @ [JStr ''-y'', JStr (path_resolve h (tmpdir h) ''palette-gen.png'')])
               # rest2"
proof -
  have one: "\<exists>args rest.
      fst (generateGIF h opts) =
        (ffmpeg, args @ [JStr ''-y'', JStr (path_resolve h (tmpdir h) ''palette-gen.png'')]) # rest"
    for opts
  proof -
    have "fst (generateGIF h opts) =
        (ffmpeg, [JStr ''-i'', JStr (file_path opts), JStr ''-vf'',
                  JStr (gif_filter opts @ '',palettegen=stats_mode=diff'')] @
                 [JStr ''-y'', JStr (path_resolve h (tmpdir h) ''palette-gen.png'')])
          # snd (snd (generateGIF h opts), tl (fst (generateGIF h opts)))"
      using assms by (simp add: generateGIF_def Let_def)
    then show ?thesis by blast
  qed
  from one [of opts1] one [of opts2] show ?thesis by blast
qed

theorem palette_file_fixed_witness:
  "configured_ffmpeg (example_host Linux []) = Some ''ffmpeg'' \<and>
   (\<exists>args1 rest1 args2 rest2.
      fst (generateGIF (example_host Linux []) (example_gif ''a.mp4'' None)) =
        (''ffmpeg'', args1 @ [JStr ''-y'', JStr ''/tmp/palette-gen.png'']) # rest1
    \<and> fst (generateGIF (example_host Linux []) (example_gif ''b.mp4'' (Some (Fin (1 / 2))))) =
        (''ffmpeg'', args2 @ [JStr ''-y'', JStr ''/tmp/palette-gen.png'']) # rest2)"
proof -
  have p: "path_resolve (example_host Linux []) (tmpdir (example_host Linux [])) ''palette-gen.png''
      = ''/tmp/palette-gen.png''"
    by (simp add: example_host_def)
  show ?thesis
    using palette_file_fixed [where h = "example_host Linux []"
        and ?opts1.0 = "example_gif ''a.mp4'' None"
        and ?opts2.0 = "example_gif ''b.mp4'' (Some (Fin (1 / 2)))", OF example_host_ready(1,2)]
    unfolding p by (simp only: example_host_ready simp_thms)
qed

text \<open>
  C10. A scale factor that is falsy (0 or \<^verbatim>\<open>NaN\<close>) gives the filter chain, and the whole
  call, of no scale factor at all: the scale stage has the width and height of the
  capture region as they are.
\<close>

theorem falsy_scale_as_absent:
  assumes "scale opts = Some s" and "\<not> truthy_num s"
  shows "gif_filter opts =
           ''fps='' @ show_int (fps opts) @ '',scale='' @ show_int (width (bounds opts)) @
           '':'' @ show_int (height (bounds opts)) @ '':flags=lanczos''
         \<and> generateGIF h opts = generateGIF h (opts\<lparr>scale := None\<rparr>)"
proof -
  have f: "gif_filter opts = gif_filter (opts\<lparr>scale := None\<rparr>)"
    using assms by (simp add: gif_filter_def)
  have "generateGIF h opts = generateGIF h (opts\<lparr>scale := None\<rparr>)"
    by (simp add: generateGIF_def f split: option.splits)
  moreover have "gif_filter opts =
           ''fps='' @ show_int (fps opts) @ '',scale='' @ show_int (width (bounds opts)) @
           '':'' @ show_int (height (bounds opts)) @ '':flags=lanczos''"
    using assms by (simp add: gif_filter_def)
  ultimately show ?thesis by simp
qed

theorem falsy_scale_as_absent_witness:
  "generateGIF (example_host Linux []) (example_gif ''out.mp4'' (Some (Fin 0))) =
     generateGIF (example_host Linux []) (example_gif ''out.mp4'' None)
   \<and> gif_filter (example_gif ''out.mp4'' (Some (Fin 0))) = ''fps=30,scale=800:600:flags=lanczos''
   \<and> generateGIF (example_host Linux []) (example_gif ''out.mp4'' (Some NaN)) =
     generateGIF (example_host Linux []) (example_gif ''out.mp4'' None)"
  using
    falsy_scale_as_absent [of "example_gif ''out.mp4'' (Some (Fin 0))" "Fin 0" "example_host Linux []"]
    falsy_scale_as_absent [of "example_gif ''out.mp4'' (Some NaN)" NaN "example_host Linux []"]
  by (simp add: example_gif_def show_int_def show_nat.simps digit_char_def)

end
